theory Spec2Isabelle
  imports Main "HOL-Library.Word"
begin

unbundle bit_operations_syntax

section \<open>The ACL connection manager (gd/hci/acl\_manager.cc)\<close>

text \<open>
  The model follows the C++ of \<^verbatim>\<open>src/gd/hci/acl_manager.cc\<close>. Member names lose their
  trailing underscore (\<^verbatim>\<open>is_disconnected_\<close> is \<open>is_disconnected\<close>). The integer types
  are those of the LP64 targets of the stack: \<^verbatim>\<open>int\<close> is a \<open>32 word\<close> read with
  \<open>sint\<close>, \<^verbatim>\<open>size_t\<close> is a \<open>64 word\<close>, \<^verbatim>\<open>uint16_t\<close> is a \<open>16 word\<close>, and the usual
  arithmetic conversions of C++ are written out (\<open>scast\<close> sign-extends, \<open>ucast\<close>
  zero-extends or truncates).
\<close>

subsection \<open>Packet views\<close>

type_synonym byte = "8 word"
type_synonym uint16_t = "16 word"
type_synonym size_t = "64 word"
type_synonym cint = "32 word"

datatype PacketBoundaryFlag =
    FIRST_NON_AUTOMATICALLY_FLUSHABLE
  | CONTINUING_FRAGMENT
  | FIRST_AUTOMATICALLY_FLUSHABLE

text \<open>
  The generated class \<^verbatim>\<open>AclPacketView\<close> is not part of the sources at hand; the record
  holds what its getters return.
\<close>

record AclPacketView =
  IsValid :: bool
  GetHandle :: uint16_t
  GetPacketBoundaryFlag :: PacketBoundaryFlag
  GetPayload :: "byte list"

text \<open>\<^verbatim>\<open>PacketView::size()\<close>, a \<^verbatim>\<open>size_t\<close>.\<close>

definition size_of :: "'a list \<Rightarrow> size_t" where
  "size_of xs = of_nat (length xs)"

definition kL2capBasicFrameHeaderSize :: cint where
  "kL2capBasicFrameHeaderSize = 4"

definition kMaxQueuedPacketsPerConnection :: nat where
  "kMaxQueuedPacketsPerConnection = 10"

definition kQualcommDebugHandle :: uint16_t where
  "kQualcommDebugHandle = 0xedc"

text \<open>
  \<^verbatim>\<open>GetL2capPduSize\<close>: the comparison converts the \<^verbatim>\<open>int\<close> constant to \<^verbatim>\<open>size_t\<close>; the
  bytes are promoted to \<^verbatim>\<open>int\<close> before the shift and the sum, and the result is cut
  to \<^verbatim>\<open>uint16_t\<close>.
\<close>

definition GetL2capPduSize :: "AclPacketView \<Rightarrow> uint16_t" where
  "GetL2capPduSize packet =
     (let l2cap_payload = GetPayload packet in
      if size_of l2cap_payload < scast kL2capBasicFrameHeaderSize then 0
      else ucast (push_bit 8 (ucast (l2cap_payload ! 1) :: cint)
                  + (ucast (l2cap_payload ! 0) :: cint)))"

subsection \<open>Per-connection state and the reassembler\<close>

datatype AddressType =
    PUBLIC_DEVICE_ADDRESS
  | RANDOM_DEVICE_ADDRESS
  | PUBLIC_IDENTITY_ADDRESS
  | RANDOM_IDENTITY_ADDRESS

type_synonym Address = "byte list"

record AddressWithType =
  GetAddress :: Address
  GetAddressType :: AddressType

text \<open>
  Handlers, callback objects and once-callbacks are pointers in the source; here each is
  a number, and \<open>None\<close> is \<^verbatim>\<open>nullptr\<close> (or a null \<^verbatim>\<open>OnceCallback\<close>).
\<close>

type_synonym Handler = nat
type_synonym Callbacks = nat
type_synonym OnceCallback = nat
type_synonym ErrorCode = byte

definition SUCCESS :: ErrorCode where
  "SUCCESS = 0"

record acl_connection =
  address_with_type :: AddressWithType
  is_disconnected :: bool
  disconnect_reason :: ErrorCode
  command_complete_handler :: "Handler option"
  disconnect_handler :: "Handler option"
  command_complete_callbacks :: "Callbacks option"
  le_command_complete_handler :: "Handler option"
  le_command_complete_callbacks :: "Callbacks option"
  on_disconnect_callback :: "OnceCallback option"
  on_connection_update_complete_callback :: "OnceCallback option"
  on_connection_update_complete_callback_handler :: "Handler option"
  recombination_stage :: "byte list"
  remaining_sdu_continuation_packet_size :: cint
  enqueue_registered :: bool
  incoming_queue :: "byte list list"

text \<open>The constructor \<^verbatim>\<open>acl_connection(address_with_type, handler)\<close> with the member initialisers.\<close>

definition new_acl_connection :: "AddressWithType \<Rightarrow> acl_connection" where
  "new_acl_connection a =
     \<lparr> address_with_type = a, is_disconnected = False, disconnect_reason = 0,
       command_complete_handler = None, disconnect_handler = None,
       command_complete_callbacks = None, le_command_complete_handler = None,
       le_command_complete_callbacks = None, on_disconnect_callback = None,
       on_connection_update_complete_callback = None,
       on_connection_update_complete_callback_handler = None,
       recombination_stage = [], remaining_sdu_continuation_packet_size = 0,
       enqueue_registered = False, incoming_queue = [] \<rparr>"

text \<open>
  The first part of \<^verbatim>\<open>on_incoming_packet\<close> (lines 107 to 139): the new state, and the
  payload that reaches the congestion check; \<open>None\<close> is a \<^verbatim>\<open>return\<close>.
  In the CONTINUING branch \<^verbatim>\<open>remaining < payload_size\<close> compares an \<^verbatim>\<open>int\<close> with a
  \<^verbatim>\<open>size_t\<close>, so the \<^verbatim>\<open>int\<close> is sign-extended and the comparison is unsigned;
  \<^verbatim>\<open>remaining -= payload_size\<close> and the subtraction of the FIRST branch are computed in
  \<^verbatim>\<open>size_t\<close> and cut to \<^verbatim>\<open>int\<close>. The FIRST branch logs when the stage is not empty
  and changes nothing there.
\<close>

definition recombine :: "acl_connection \<Rightarrow> AclPacketView \<Rightarrow> acl_connection \<times> byte list option" where
  "recombine c packet =
     (let payload = GetPayload packet;
          payload_size = size_of payload;
          packet_boundary_flag = GetPacketBoundaryFlag packet in
      if packet_boundary_flag = FIRST_NON_AUTOMATICALLY_FLUSHABLE then (c, None)
      else if packet_boundary_flag = CONTINUING_FRAGMENT then
        (if (scast (remaining_sdu_continuation_packet_size c) :: size_t) < payload_size then
           (c\<lparr>recombination_stage := [], remaining_sdu_continuation_packet_size := 0\<rparr>, None)
         else
           let c1 = c\<lparr>remaining_sdu_continuation_packet_size :=
                        ucast ((scast (remaining_sdu_continuation_packet_size c) :: size_t) - payload_size)\<rparr>;
               c2 = c1\<lparr>recombination_stage := recombination_stage c1 @ payload\<rparr> in
           if remaining_sdu_continuation_packet_size c2 \<noteq> 0 then (c2, None)
           else (c2\<lparr>recombination_stage := []\<rparr>, Some (recombination_stage c2)))
      else
        (let l2cap_pdu_size = GetL2capPduSize packet;
             c1 = c\<lparr>remaining_sdu_continuation_packet_size :=
                      ucast ((ucast l2cap_pdu_size :: size_t)
                             - (payload_size - scast kL2capBasicFrameHeaderSize))\<rparr> in
         if 0 <s remaining_sdu_continuation_packet_size c1
         then (c1\<lparr>recombination_stage := payload\<rparr>, None)
         else (c1, Some payload)))"

text \<open>
  \<^verbatim>\<open>on_incoming_packet\<close>: the part above, then the congestion check and the push
  (lines 140 to 149). \<^verbatim>\<open>enqueue_registered_.exchange(true)\<close> leaves the flag set.
\<close>

definition on_incoming_packet :: "acl_connection \<Rightarrow> AclPacketView \<Rightarrow> acl_connection" where
  "on_incoming_packet c packet =
     (case recombine c packet of
        (c', None) \<Rightarrow> c'
      | (c', Some payload) \<Rightarrow>
          if length (incoming_queue c') > kMaxQueuedPacketsPerConnection then c'
          else c'\<lparr>incoming_queue := incoming_queue c' @ [payload], enqueue_registered := True\<rparr>)"

text \<open>Fragments of one connection, in the order of arrival.\<close>

definition on_incoming_packets :: "acl_connection \<Rightarrow> AclPacketView list \<Rightarrow> acl_connection" where
  "on_incoming_packets c packets = foldl on_incoming_packet c packets"

subsection \<open>The manager: state, effects and failures\<close>

text \<open>
  \<^verbatim>\<open>ASSERT(c)\<close> aborts the process when \<open>c\<close> is false. Two more ways to leave the
  defined behaviour of C++ occur in the handlers: a member call through a null handler
  pointer, and \<^verbatim>\<open>acl_connections_.find(handle)->second\<close> when \<^verbatim>\<open>find\<close> returns
  \<^verbatim>\<open>end()\<close>. Each is a value of \<open>failure\<close>, and a function that can fail returns
  \<open>failure + 'a\<close>.
\<close>

datatype failure = ASSERT_failed | nullptr_dereferenced | end_iterator_dereferenced

datatype Role = MASTER | SLAVE
datatype PageScanRepetitionMode = R0 | R1 | R2
datatype ClockOffsetValid = INVALID | VALID
datatype CreateConnectionRoleSwitch = REMAIN_MASTER | ALLOW_ROLE_SWITCH

text \<open>Enumerations of the generated packet definitions that the manager only passes on.\<close>

type_synonym DisconnectReason = byte
type_synonym Enable = byte
type_synonym ServiceType = byte
type_synonym FlowDirection = byte
type_synonym TransmitPowerLevelType = byte
type_synonym WhichClock = byte
type_synonym Mode = byte
type_synonym uint32_t = "32 word"

text \<open>The command builders handed to \<^verbatim>\<open>hci_layer_->EnqueueCommand\<close> by the functions below.\<close>

datatype CommandBuilder =
    CreateConnectionBuilder Address uint16_t PageScanRepetitionMode uint16_t ClockOffsetValid
      CreateConnectionRoleSwitch
  | DisconnectBuilder uint16_t DisconnectReason
  | LeConnectionUpdateBuilder uint16_t uint16_t uint16_t uint16_t uint16_t uint16_t uint16_t

text \<open>
  A closure posted to the manager's own handler:
  \<^verbatim>\<open>handler_->Post(BindOnce(&impl::handle_disconnect, Unretained(this), handle, reason))\<close>
  is \<open>Post_handle_disconnect handle reason\<close>.
\<close>

datatype Task =
    Post_handle_disconnect uint16_t DisconnectReason
  | Post_handle_change_connection_packet_type uint16_t uint16_t
  | Post_handle_authentication_requested uint16_t
  | Post_handle_set_connection_encryption uint16_t Enable
  | Post_handle_change_connection_link_key uint16_t
  | Post_handle_read_clock_offset uint16_t
  | Post_handle_hold_mode uint16_t uint16_t uint16_t
  | Post_handle_sniff_mode uint16_t uint16_t uint16_t uint16_t uint16_t
  | Post_handle_exit_sniff_mode uint16_t
  | Post_handle_qos_setup_mode uint16_t ServiceType uint32_t uint32_t uint32_t uint32_t
  | Post_handle_role_discovery uint16_t
  | Post_handle_read_link_policy_settings uint16_t
  | Post_handle_write_link_policy_settings uint16_t uint16_t
  | Post_handle_flow_specification uint16_t FlowDirection ServiceType uint32_t uint32_t uint32_t uint32_t
  | Post_handle_sniff_subrating uint16_t uint16_t uint16_t uint16_t
  | Post_handle_flush uint16_t
  | Post_handle_read_automatic_flush_timeout uint16_t
  | Post_handle_write_automatic_flush_timeout uint16_t uint16_t
  | Post_handle_read_transmit_power_level uint16_t TransmitPowerLevelType
  | Post_handle_read_link_supervision_timeout uint16_t
  | Post_handle_write_link_supervision_timeout uint16_t uint16_t
  | Post_handle_read_failed_contact_counter uint16_t
  | Post_handle_reset_failed_contact_counter uint16_t
  | Post_handle_read_link_quality uint16_t
  | Post_handle_afh_channel_map uint16_t
  | Post_handle_read_rssi uint16_t
  | Post_handle_read_remote_version_information uint16_t
  | Post_handle_read_remote_supported_features uint16_t
  | Post_handle_read_remote_extended_features uint16_t
  | Post_handle_read_clock uint16_t WhichClock
  | Post_handle_le_connection_update uint16_t uint16_t uint16_t uint16_t uint16_t uint16_t uint16_t
  | Post_cleanup uint16_t

text \<open>
  A closure posted to a handler of the upper layer; the first argument of a method of a
  callback object is the object it is bound to (\<^verbatim>\<open>Unretained(client_callbacks_)\<close>).
\<close>

datatype Callback =
    OnConnectFail "Callbacks option" Address ErrorCode
  | OnConnectSuccess "Callbacks option" uint16_t Address Role
  | OnLeConnectFail "Callbacks option" AddressWithType ErrorCode
  | OnLeConnectSuccess "Callbacks option" AddressWithType uint16_t Role
  | Run_on_disconnect_callback "OnceCallback option" ErrorCode
  | OnConnectionPacketTypeChanged "Callbacks option" uint16_t
  | OnAuthenticationComplete "Callbacks option"
  | OnModeChange "Callbacks option" Mode uint16_t
  | Run_on_connection_update_complete_callback "OnceCallback option" ErrorCode

text \<open>Calls of the round-robin scheduler posted to the HCI handler.\<close>

datatype SchedulerCall = Register uint16_t | Unregister uint16_t | SetDisconnect uint16_t

text \<open>
  \<^verbatim>\<open>struct AclManager::impl\<close>. The \<^verbatim>\<open>std::map\<close> of connections is an association list
  with distinct keys, read with \<open>map_of\<close>. The last four fields are the effects in the
  order of their occurrence: the commands given to \<^verbatim>\<open>EnqueueCommand\<close>, the closures
  posted to \<^verbatim>\<open>handler_\<close>, to the handlers of the upper layer, and to the HCI handler.
\<close>

record impl =
  acl_connections :: "(uint16_t \<times> acl_connection) list"
  connecting :: "Address set"
  connecting_le :: "AddressWithType set"
  pending_outgoing_connections :: "(Address \<times> CommandBuilder) list"
  client_callbacks :: "Callbacks option"
  client_handler :: "Handler option"
  le_client_callbacks :: "Callbacks option"
  le_client_handler :: "Handler option"
  hci_commands :: "CommandBuilder list"
  handler_tasks :: "Task list"
  callback_posts :: "(Handler \<times> Callback) list"
  scheduler_posts :: "SchedulerCall list"

definition EnqueueCommand :: "impl \<Rightarrow> CommandBuilder \<Rightarrow> impl" where
  "EnqueueCommand s packet = s\<lparr>hci_commands := hci_commands s @ [packet]\<rparr>"

definition Post :: "impl \<Rightarrow> Task \<Rightarrow> impl" where
  "Post s task = s\<lparr>handler_tasks := handler_tasks s @ [task]\<rparr>"

text \<open>\<^verbatim>\<open>h->Post(cb)\<close> for a handler pointer \<open>h\<close> of the upper layer.\<close>

definition Post_to :: "impl \<Rightarrow> Handler option \<Rightarrow> Callback \<Rightarrow> failure + impl" where
  "Post_to s h cb =
     (case h of
        None \<Rightarrow> Inl nullptr_dereferenced
      | Some handler \<Rightarrow> Inr (s\<lparr>callback_posts := callback_posts s @ [(handler, cb)]\<rparr>))"

definition Post_to_scheduler :: "impl \<Rightarrow> SchedulerCall \<Rightarrow> impl" where
  "Post_to_scheduler s scheduler_call =
     s\<lparr>scheduler_posts := scheduler_posts s @ [scheduler_call]\<rparr>"

text \<open>\<^verbatim>\<open>acl_connections_.find(handle)\<close>; \<open>None\<close> is \<^verbatim>\<open>end()\<close>.\<close>

definition find_connection :: "impl \<Rightarrow> uint16_t \<Rightarrow> acl_connection option" where
  "find_connection s handle = map_of (acl_connections s) handle"

text \<open>Storing through the reference \<^verbatim>\<open>find(handle)->second\<close>.\<close>

definition set_connection :: "impl \<Rightarrow> uint16_t \<Rightarrow> acl_connection \<Rightarrow> impl" where
  "set_connection s handle c =
     s\<lparr>acl_connections :=
         map (\<lambda>(h, old). if h = handle then (h, c) else (h, old)) (acl_connections s)\<rparr>"

definition check_and_get_connection :: "impl \<Rightarrow> uint16_t \<Rightarrow> failure + acl_connection" where
  "check_and_get_connection s handle =
     (case find_connection s handle of
        None \<Rightarrow> Inl ASSERT_failed
      | Some connection \<Rightarrow> Inr connection)"

definition is_classic_link_already_connected :: "impl \<Rightarrow> Address \<Rightarrow> bool" where
  "is_classic_link_already_connected s address =
     list_ex (\<lambda>(h, connection). GetAddress (address_with_type connection) = address)
       (acl_connections s)"

subsection \<open>Ingress router\<close>

text \<open>
  \<^verbatim>\<open>dequeue_and_route_acl_packet_to_connection\<close>; the argument is what
  \<^verbatim>\<open>hci_queue_end_->TryDequeue()\<close> returned, \<open>None\<close> for a null pointer.
\<close>

definition dequeue_and_route_acl_packet_to_connection ::
  "impl \<Rightarrow> AclPacketView option \<Rightarrow> failure + impl" where
  "dequeue_and_route_acl_packet_to_connection s dequeued =
     (case dequeued of
        None \<Rightarrow> Inl ASSERT_failed
      | Some packet \<Rightarrow>
          if \<not> AclPacketView.IsValid packet then Inr s
          else let handle = GetHandle packet in
            if handle = kQualcommDebugHandle then Inr s
            else case find_connection s handle of
                None \<Rightarrow> Inr s
              | Some connection \<Rightarrow>
                  Inr (set_connection s handle (on_incoming_packet connection packet)))"

subsection \<open>Event handlers\<close>

text \<open>
  Each handler takes the typed view that \<^verbatim>\<open>SomeView::Create(packet)\<close> built; the views
  are generated classes outside the sources at hand, and a record holds what the getters
  return.
\<close>

record ConnectionCompleteView =
  IsValid :: bool
  GetStatus :: ErrorCode
  GetConnectionHandle :: uint16_t
  GetBdAddr :: Address

record LeConnectionCompleteView =
  IsValid :: bool
  GetStatus :: ErrorCode
  GetConnectionHandle :: uint16_t
  GetPeerAddress :: Address
  GetPeerAddressType :: AddressType
  GetRole :: Role

record DisconnectionCompleteView =
  IsValid :: bool
  GetStatus :: ErrorCode
  GetConnectionHandle :: uint16_t
  GetReason :: ErrorCode

record ConnectionPacketTypeChangedView =
  IsValid :: bool
  GetStatus :: ErrorCode
  GetConnectionHandle :: uint16_t
  GetPacketType :: uint16_t

record AuthenticationCompleteView =
  IsValid :: bool
  GetStatus :: ErrorCode
  GetConnectionHandle :: uint16_t

record ModeChangeView =
  IsValid :: bool
  GetStatus :: ErrorCode
  GetConnectionHandle :: uint16_t
  GetCurrentMode :: Mode
  GetInterval :: uint16_t

record LeConnectionUpdateCompleteView =
  IsValid :: bool
  GetStatus :: ErrorCode
  GetConnectionHandle :: uint16_t

definition on_classic_connection_complete :: "impl \<Rightarrow> Address \<Rightarrow> impl" where
  "on_classic_connection_complete s address =
     (if address \<notin> connecting s then s
      else s\<lparr>connecting := connecting s - {address}\<rparr>)"

definition on_common_le_connection_complete :: "impl \<Rightarrow> AddressWithType \<Rightarrow> impl" where
  "on_common_le_connection_complete s address_with_type' =
     (if address_with_type' \<notin> connecting_le s then s
      else s\<lparr>connecting_le := connecting_le s - {address_with_type'}\<rparr>)"

text \<open>
  The loop at the end of \<^verbatim>\<open>on_connection_complete\<close> (lines 389 to 402), by recursion
  on the queue of pending connections: entries whose peer is connected are popped and
  dropped, the first other entry is popped and issued, and the loop ends there.
\<close>

fun issue_pending_connection :: "impl \<Rightarrow> (Address \<times> CommandBuilder) list \<Rightarrow> impl" where
  "issue_pending_connection s [] = s\<lparr>pending_outgoing_connections := []\<rparr>"
| "issue_pending_connection s (create_connection_packet_and_address # rest) =
     (if \<not> is_classic_link_already_connected s (fst create_connection_packet_and_address)
      then EnqueueCommand
             (s\<lparr>pending_outgoing_connections := rest,
                connecting := insert (fst create_connection_packet_and_address) (connecting s)\<rparr>)
             (snd create_connection_packet_and_address)
      else issue_pending_connection s rest)"

definition on_connection_complete :: "impl \<Rightarrow> ConnectionCompleteView \<Rightarrow> failure + impl" where
  "on_connection_complete s connection_complete =
     (if \<not> ConnectionCompleteView.IsValid connection_complete then Inl ASSERT_failed
      else
        let status = ConnectionCompleteView.GetStatus connection_complete;
            address = GetBdAddr connection_complete;
            s1 = on_classic_connection_complete s address in
        if status \<noteq> SUCCESS then
          Post_to s1 (client_handler s1) (OnConnectFail (client_callbacks s1) address status)
        else
          let handle = ConnectionCompleteView.GetConnectionHandle connection_complete in
          if find_connection s1 handle \<noteq> None then Inl ASSERT_failed
          else
            let s2 = s1\<lparr>acl_connections := acl_connections s1 @
                          [(handle, new_acl_connection
                              \<lparr>GetAddress = address, GetAddressType = PUBLIC_DEVICE_ADDRESS\<rparr>)]\<rparr>;
                s3 = Post_to_scheduler s2 (Register handle) in
            case Post_to s3 (client_handler s3)
                   (OnConnectSuccess (client_callbacks s3) handle address MASTER) of
              Inl f \<Rightarrow> Inl f
            | Inr s4 \<Rightarrow> Inr (issue_pending_connection s4 (pending_outgoing_connections s4)))"

definition on_le_connection_complete :: "impl \<Rightarrow> LeConnectionCompleteView \<Rightarrow> failure + impl" where
  "on_le_connection_complete s connection_complete =
     (if \<not> LeConnectionCompleteView.IsValid connection_complete then Inl ASSERT_failed
      else
        let status = LeConnectionCompleteView.GetStatus connection_complete;
            address = GetPeerAddress connection_complete;
            peer_address_type = GetPeerAddressType connection_complete;
            address_with_type' = \<lparr>GetAddress = address, GetAddressType = peer_address_type\<rparr>;
            s1 = on_common_le_connection_complete s address_with_type' in
        if status \<noteq> SUCCESS then
          Post_to s1 (le_client_handler s1)
            (OnLeConnectFail (le_client_callbacks s1) address_with_type' status)
        else
          let handle = LeConnectionCompleteView.GetConnectionHandle connection_complete in
          if find_connection s1 handle \<noteq> None then Inl ASSERT_failed
          else
            let s2 = s1\<lparr>acl_connections := acl_connections s1 @
                          [(handle, new_acl_connection address_with_type')]\<rparr>;
                s3 = Post_to_scheduler s2 (Register handle);
                role = GetRole connection_complete in
            Post_to s3 (le_client_handler s3)
              (OnLeConnectSuccess (le_client_callbacks s3) address_with_type' handle role))"

text \<open>
  \<^verbatim>\<open>call_disconnect_callback\<close> posts the moved-out \<^verbatim>\<open>on_disconnect_callback_\<close> to
  \<^verbatim>\<open>disconnect_handler_\<close>; the member is null afterwards.
\<close>

definition call_disconnect_callback :: "impl \<Rightarrow> uint16_t \<Rightarrow> acl_connection \<Rightarrow> failure + impl" where
  "call_disconnect_callback s handle connection =
     (case Post_to s (disconnect_handler connection)
             (Run_on_disconnect_callback (on_disconnect_callback connection)
                (disconnect_reason connection)) of
        Inl f \<Rightarrow> Inl f
      | Inr s1 \<Rightarrow> Inr (set_connection s1 handle (connection\<lparr>on_disconnect_callback := None\<rparr>)))"

definition on_disconnection_complete :: "impl \<Rightarrow> DisconnectionCompleteView \<Rightarrow> failure + impl" where
  "on_disconnection_complete s disconnection_complete =
     (if \<not> DisconnectionCompleteView.IsValid disconnection_complete then Inl ASSERT_failed
      else
        let handle = DisconnectionCompleteView.GetConnectionHandle disconnection_complete;
            status = DisconnectionCompleteView.GetStatus disconnection_complete in
        if status = SUCCESS then
          (case find_connection s handle of
             None \<Rightarrow> Inl ASSERT_failed
           | Some acl_connection \<Rightarrow>
               let c1 = acl_connection\<lparr>is_disconnected := True\<rparr>;
                   s1 = Post_to_scheduler (set_connection s handle c1) (SetDisconnect handle);
                   c2 = c1\<lparr>disconnect_reason := GetReason disconnection_complete\<rparr>;
                   s2 = set_connection s1 handle c2 in
               call_disconnect_callback s2 handle c2)
        else Inr s)"

text \<open>
  The handlers of the events that carry a handle read \<^verbatim>\<open>acl_connections_.find(handle)->second\<close>
  without a test against \<^verbatim>\<open>end()\<close>.
\<close>

definition on_connection_packet_type_changed ::
  "impl \<Rightarrow> ConnectionPacketTypeChangedView \<Rightarrow> failure + impl" where
  "on_connection_packet_type_changed s packet_type_changed =
     (if \<not> ConnectionPacketTypeChangedView.IsValid packet_type_changed then Inr s
      else if ConnectionPacketTypeChangedView.GetStatus packet_type_changed \<noteq> SUCCESS then Inr s
      else
        let handle = ConnectionPacketTypeChangedView.GetConnectionHandle packet_type_changed in
        case find_connection s handle of
          None \<Rightarrow> Inl end_iterator_dereferenced
        | Some acl_connection \<Rightarrow>
            if command_complete_handler acl_connection \<noteq> None then
              let packet_type = GetPacketType packet_type_changed in
              Post_to s (command_complete_handler acl_connection)
                (OnConnectionPacketTypeChanged (command_complete_callbacks acl_connection) packet_type)
            else Inr s)"

definition on_authentication_complete ::
  "impl \<Rightarrow> AuthenticationCompleteView \<Rightarrow> failure + impl" where
  "on_authentication_complete s authentication_complete =
     (if \<not> AuthenticationCompleteView.IsValid authentication_complete then Inr s
      else if AuthenticationCompleteView.GetStatus authentication_complete \<noteq> SUCCESS then Inr s
      else
        let handle = AuthenticationCompleteView.GetConnectionHandle authentication_complete in
        case find_connection s handle of
          None \<Rightarrow> Inl end_iterator_dereferenced
        | Some acl_connection \<Rightarrow>
            if command_complete_handler acl_connection \<noteq> None then
              Post_to s (command_complete_handler acl_connection)
                (OnAuthenticationComplete (command_complete_callbacks acl_connection))
            else Inr s)"

definition on_mode_change :: "impl \<Rightarrow> ModeChangeView \<Rightarrow> failure + impl" where
  "on_mode_change s mode_change_view =
     (if \<not> ModeChangeView.IsValid mode_change_view then Inr s
      else if ModeChangeView.GetStatus mode_change_view \<noteq> SUCCESS then Inr s
      else
        let handle = ModeChangeView.GetConnectionHandle mode_change_view in
        case find_connection s handle of
          None \<Rightarrow> Inl end_iterator_dereferenced
        | Some acl_connection \<Rightarrow>
            if command_complete_handler acl_connection \<noteq> None then
              let current_mode = GetCurrentMode mode_change_view;
                  interval = GetInterval mode_change_view in
              Post_to s (command_complete_handler acl_connection)
                (OnModeChange (command_complete_callbacks acl_connection) current_mode interval)
            else Inr s)"

text \<open>\<^verbatim>\<open>on_le_connection_update_complete\<close> does test the result of \<^verbatim>\<open>find\<close>.\<close>

definition on_le_connection_update_complete ::
  "impl \<Rightarrow> LeConnectionUpdateCompleteView \<Rightarrow> failure + impl" where
  "on_le_connection_update_complete s complete_view =
     (if \<not> LeConnectionUpdateCompleteView.IsValid complete_view then Inr s
      else if LeConnectionUpdateCompleteView.GetStatus complete_view \<noteq> SUCCESS then Inr s
      else
        let handle = LeConnectionUpdateCompleteView.GetConnectionHandle complete_view in
        case find_connection s handle of
          None \<Rightarrow> Inr s
        | Some connection \<Rightarrow>
            if is_disconnected connection then Inr s
            else if on_connection_update_complete_callback connection \<noteq> None then
              (case Post_to s (on_connection_update_complete_callback_handler connection)
                      (Run_on_connection_update_complete_callback
                         (on_connection_update_complete_callback connection)
                         (LeConnectionUpdateCompleteView.GetStatus complete_view)) of
                 Inl f \<Rightarrow> Inl f
               | Inr s1 \<Rightarrow>
                   Inr (set_connection s1 handle
                          (connection\<lparr>on_connection_update_complete_callback := None,
                                      on_connection_update_complete_callback_handler := None\<rparr>)))
            else Inr s)"

subsection \<open>Outgoing Classic connections\<close>

definition create_connection :: "impl \<Rightarrow> Address \<Rightarrow> failure + impl" where
  "create_connection s address =
     (let packet_type = (0x4408 :: uint16_t) OR 0x8810;
          page_scan_repetition_mode = R1;
          clock_offset = (0 :: uint16_t);
          clock_offset_valid = INVALID;
          allow_role_switch = ALLOW_ROLE_SWITCH in
      if client_callbacks s = None then Inl ASSERT_failed
      else
        let packet = CreateConnectionBuilder address packet_type page_scan_repetition_mode
                       clock_offset clock_offset_valid allow_role_switch in
        if connecting s = {} then
          (if is_classic_link_already_connected s address then Inr s
           else Inr (EnqueueCommand (s\<lparr>connecting := insert address (connecting s)\<rparr>) packet))
        else
          Inr (s\<lparr>pending_outgoing_connections :=
                    pending_outgoing_connections s @ [(address, packet)]\<rparr>))"

subsection \<open>Operations on a connection\<close>

text \<open>
  The boolean operations of \<^verbatim>\<open>impl\<close> that the connection proxies forward to. Each
  returns its result and the new state; \<^verbatim>\<open>check_and_get_connection\<close> asserts that the
  handle is in the table.
\<close>

definition Disconnect :: "impl \<Rightarrow> uint16_t \<Rightarrow> DisconnectReason \<Rightarrow> failure + bool \<times> impl" where
  "Disconnect s handle reason =
     (case check_and_get_connection s handle of
        Inl f \<Rightarrow> Inl f
      | Inr connection \<Rightarrow>
          if is_disconnected connection then Inr (False, s)
          else Inr (True, Post s (Post_handle_disconnect handle reason)))"

definition ChangeConnectionPacketType :: "impl \<Rightarrow> uint16_t \<Rightarrow> uint16_t \<Rightarrow> failure + bool \<times> impl" where
  "ChangeConnectionPacketType s handle packet_type =
     (case check_and_get_connection s handle of
        Inl f \<Rightarrow> Inl f
      | Inr connection \<Rightarrow>
          if is_disconnected connection then Inr (False, s)
          else Inr (True, Post s (Post_handle_change_connection_packet_type handle packet_type)))"

definition AuthenticationRequested :: "impl \<Rightarrow> uint16_t \<Rightarrow> failure + bool \<times> impl" where
  "AuthenticationRequested s handle =
     (case check_and_get_connection s handle of
        Inl f \<Rightarrow> Inl f
      | Inr connection \<Rightarrow>
          if is_disconnected connection then Inr (False, s)
          else Inr (True, Post s (Post_handle_authentication_requested handle)))"

definition SetConnectionEncryption :: "impl \<Rightarrow> uint16_t \<Rightarrow> Enable \<Rightarrow> failure + bool \<times> impl" where
  "SetConnectionEncryption s handle enable =
     (case check_and_get_connection s handle of
        Inl f \<Rightarrow> Inl f
      | Inr connection \<Rightarrow>
          if is_disconnected connection then Inr (False, s)
          else Inr (True, Post s (Post_handle_set_connection_encryption handle enable)))"

definition ChangeConnectionLinkKey :: "impl \<Rightarrow> uint16_t \<Rightarrow> failure + bool \<times> impl" where
  "ChangeConnectionLinkKey s handle =
     (case check_and_get_connection s handle of
        Inl f \<Rightarrow> Inl f
      | Inr connection \<Rightarrow>
          if is_disconnected connection then Inr (False, s)
          else Inr (True, Post s (Post_handle_change_connection_link_key handle)))"

definition ReadClockOffset :: "impl \<Rightarrow> uint16_t \<Rightarrow> failure + bool \<times> impl" where
  "ReadClockOffset s handle =
     (case check_and_get_connection s handle of
        Inl f \<Rightarrow> Inl f
      | Inr connection \<Rightarrow>
          if is_disconnected connection then Inr (False, s)
          else Inr (True, Post s (Post_handle_read_clock_offset handle)))"

definition HoldMode :: "impl \<Rightarrow> uint16_t \<Rightarrow> uint16_t \<Rightarrow> uint16_t \<Rightarrow> failure + bool \<times> impl" where
  "HoldMode s handle max_interval min_interval =
     (case check_and_get_connection s handle of
        Inl f \<Rightarrow> Inl f
      | Inr connection \<Rightarrow>
          if is_disconnected connection then Inr (False, s)
          else Inr (True, Post s (Post_handle_hold_mode handle max_interval min_interval)))"

definition SniffMode :: "impl \<Rightarrow> uint16_t \<Rightarrow> uint16_t \<Rightarrow> uint16_t \<Rightarrow> uint16_t \<Rightarrow> uint16_t \<Rightarrow> failure + bool \<times> impl" where
  "SniffMode s handle max_interval min_interval attempt timeout =
     (case check_and_get_connection s handle of
        Inl f \<Rightarrow> Inl f
      | Inr connection \<Rightarrow>
          if is_disconnected connection then Inr (False, s)
          else Inr (True, Post s (Post_handle_sniff_mode handle max_interval min_interval attempt timeout)))"

definition ExitSniffMode :: "impl \<Rightarrow> uint16_t \<Rightarrow> failure + bool \<times> impl" where
  "ExitSniffMode s handle =
     (case check_and_get_connection s handle of
        Inl f \<Rightarrow> Inl f
      | Inr connection \<Rightarrow>
          if is_disconnected connection then Inr (False, s)
          else Inr (True, Post s (Post_handle_exit_sniff_mode handle)))"

definition QosSetup :: "impl \<Rightarrow> uint16_t \<Rightarrow> ServiceType \<Rightarrow> uint32_t \<Rightarrow> uint32_t \<Rightarrow> uint32_t \<Rightarrow> uint32_t \<Rightarrow> failure + bool \<times> impl" where
  "QosSetup s handle service_type token_rate peak_bandwidth latency delay_variation =
     (case check_and_get_connection s handle of
        Inl f \<Rightarrow> Inl f
      | Inr connection \<Rightarrow>
          if is_disconnected connection then Inr (False, s)
          else Inr (True, Post s (Post_handle_qos_setup_mode handle service_type token_rate peak_bandwidth latency delay_variation)))"

definition RoleDiscovery :: "impl \<Rightarrow> uint16_t \<Rightarrow> failure + bool \<times> impl" where
  "RoleDiscovery s handle =
     (case check_and_get_connection s handle of
        Inl f \<Rightarrow> Inl f
      | Inr connection \<Rightarrow>
          if is_disconnected connection then Inr (False, s)
          else Inr (True, Post s (Post_handle_role_discovery handle)))"

definition ReadLinkPolicySettings :: "impl \<Rightarrow> uint16_t \<Rightarrow> failure + bool \<times> impl" where
  "ReadLinkPolicySettings s handle =
     (case check_and_get_connection s handle of
        Inl f \<Rightarrow> Inl f
      | Inr connection \<Rightarrow>
          if is_disconnected connection then Inr (False, s)
          else Inr (True, Post s (Post_handle_read_link_policy_settings handle)))"

definition WriteLinkPolicySettings :: "impl \<Rightarrow> uint16_t \<Rightarrow> uint16_t \<Rightarrow> failure + bool \<times> impl" where
  "WriteLinkPolicySettings s handle link_policy_settings =
     (case check_and_get_connection s handle of
        Inl f \<Rightarrow> Inl f
      | Inr connection \<Rightarrow>
          if is_disconnected connection then Inr (False, s)
          else Inr (True, Post s (Post_handle_write_link_policy_settings handle link_policy_settings)))"

definition FlowSpecification :: "impl \<Rightarrow> uint16_t \<Rightarrow> FlowDirection \<Rightarrow> ServiceType \<Rightarrow> uint32_t \<Rightarrow> uint32_t \<Rightarrow> uint32_t \<Rightarrow> uint32_t \<Rightarrow> failure + bool \<times> impl" where
  "FlowSpecification s handle flow_direction service_type token_rate token_bucket_size peak_bandwidth access_latency =
     (case check_and_get_connection s handle of
        Inl f \<Rightarrow> Inl f
      | Inr connection \<Rightarrow>
          if is_disconnected connection then Inr (False, s)
          else Inr (True, Post s (Post_handle_flow_specification handle flow_direction service_type token_rate token_bucket_size peak_bandwidth access_latency)))"

definition SniffSubrating :: "impl \<Rightarrow> uint16_t \<Rightarrow> uint16_t \<Rightarrow> uint16_t \<Rightarrow> uint16_t \<Rightarrow> failure + bool \<times> impl" where
  "SniffSubrating s handle maximum_latency minimum_remote_timeout minimum_local_timeout =
     (case check_and_get_connection s handle of
        Inl f \<Rightarrow> Inl f
      | Inr connection \<Rightarrow>
          if is_disconnected connection then Inr (False, s)
          else Inr (True, Post s (Post_handle_sniff_subrating handle maximum_latency minimum_remote_timeout minimum_local_timeout)))"

definition Flush :: "impl \<Rightarrow> uint16_t \<Rightarrow> failure + bool \<times> impl" where
  "Flush s handle =
     (case check_and_get_connection s handle of
        Inl f \<Rightarrow> Inl f
      | Inr connection \<Rightarrow>
          if is_disconnected connection then Inr (False, s)
          else Inr (True, Post s (Post_handle_flush handle)))"

definition ReadAutomaticFlushTimeout :: "impl \<Rightarrow> uint16_t \<Rightarrow> failure + bool \<times> impl" where
  "ReadAutomaticFlushTimeout s handle =
     (case check_and_get_connection s handle of
        Inl f \<Rightarrow> Inl f
      | Inr connection \<Rightarrow>
          if is_disconnected connection then Inr (False, s)
          else Inr (True, Post s (Post_handle_read_automatic_flush_timeout handle)))"

definition WriteAutomaticFlushTimeout :: "impl \<Rightarrow> uint16_t \<Rightarrow> uint16_t \<Rightarrow> failure + bool \<times> impl" where
  "WriteAutomaticFlushTimeout s handle flush_timeout =
     (case check_and_get_connection s handle of
        Inl f \<Rightarrow> Inl f
      | Inr connection \<Rightarrow>
          if is_disconnected connection then Inr (False, s)
          else Inr (True, Post s (Post_handle_write_automatic_flush_timeout handle flush_timeout)))"

definition ReadTransmitPowerLevel :: "impl \<Rightarrow> uint16_t \<Rightarrow> TransmitPowerLevelType \<Rightarrow> failure + bool \<times> impl" where
  "ReadTransmitPowerLevel s handle type' =
     (case check_and_get_connection s handle of
        Inl f \<Rightarrow> Inl f
      | Inr connection \<Rightarrow>
          if is_disconnected connection then Inr (False, s)
          else Inr (True, Post s (Post_handle_read_transmit_power_level handle type')))"

definition ReadLinkSupervisionTimeout :: "impl \<Rightarrow> uint16_t \<Rightarrow> failure + bool \<times> impl" where
  "ReadLinkSupervisionTimeout s handle =
     (case check_and_get_connection s handle of
        Inl f \<Rightarrow> Inl f
      | Inr connection \<Rightarrow>
          if is_disconnected connection then Inr (False, s)
          else Inr (True, Post s (Post_handle_read_link_supervision_timeout handle)))"

definition WriteLinkSupervisionTimeout :: "impl \<Rightarrow> uint16_t \<Rightarrow> uint16_t \<Rightarrow> failure + bool \<times> impl" where
  "WriteLinkSupervisionTimeout s handle link_supervision_timeout =
     (case check_and_get_connection s handle of
        Inl f \<Rightarrow> Inl f
      | Inr connection \<Rightarrow>
          if is_disconnected connection then Inr (False, s)
          else Inr (True, Post s (Post_handle_write_link_supervision_timeout handle link_supervision_timeout)))"

definition ReadFailedContactCounter :: "impl \<Rightarrow> uint16_t \<Rightarrow> failure + bool \<times> impl" where
  "ReadFailedContactCounter s handle =
     (case check_and_get_connection s handle of
        Inl f \<Rightarrow> Inl f
      | Inr connection \<Rightarrow>
          if is_disconnected connection then Inr (False, s)
          else Inr (True, Post s (Post_handle_read_failed_contact_counter handle)))"

definition ResetFailedContactCounter :: "impl \<Rightarrow> uint16_t \<Rightarrow> failure + bool \<times> impl" where
  "ResetFailedContactCounter s handle =
     (case check_and_get_connection s handle of
        Inl f \<Rightarrow> Inl f
      | Inr connection \<Rightarrow>
          if is_disconnected connection then Inr (False, s)
          else Inr (True, Post s (Post_handle_reset_failed_contact_counter handle)))"

definition ReadLinkQuality :: "impl \<Rightarrow> uint16_t \<Rightarrow> failure + bool \<times> impl" where
  "ReadLinkQuality s handle =
     (case check_and_get_connection s handle of
        Inl f \<Rightarrow> Inl f
      | Inr connection \<Rightarrow>
          if is_disconnected connection then Inr (False, s)
          else Inr (True, Post s (Post_handle_read_link_quality handle)))"

definition ReadAfhChannelMap :: "impl \<Rightarrow> uint16_t \<Rightarrow> failure + bool \<times> impl" where
  "ReadAfhChannelMap s handle =
     (case check_and_get_connection s handle of
        Inl f \<Rightarrow> Inl f
      | Inr connection \<Rightarrow>
          if is_disconnected connection then Inr (False, s)
          else Inr (True, Post s (Post_handle_afh_channel_map handle)))"

definition ReadRssi :: "impl \<Rightarrow> uint16_t \<Rightarrow> failure + bool \<times> impl" where
  "ReadRssi s handle =
     (case check_and_get_connection s handle of
        Inl f \<Rightarrow> Inl f
      | Inr connection \<Rightarrow>
          if is_disconnected connection then Inr (False, s)
          else Inr (True, Post s (Post_handle_read_rssi handle)))"

definition ReadRemoteVersionInformation :: "impl \<Rightarrow> uint16_t \<Rightarrow> failure + bool \<times> impl" where
  "ReadRemoteVersionInformation s handle =
     (case check_and_get_connection s handle of
        Inl f \<Rightarrow> Inl f
      | Inr connection \<Rightarrow>
          if is_disconnected connection then Inr (False, s)
          else Inr (True, Post s (Post_handle_read_remote_version_information handle)))"

definition ReadRemoteSupportedFeatures :: "impl \<Rightarrow> uint16_t \<Rightarrow> failure + bool \<times> impl" where
  "ReadRemoteSupportedFeatures s handle =
     (case check_and_get_connection s handle of
        Inl f \<Rightarrow> Inl f
      | Inr connection \<Rightarrow>
          if is_disconnected connection then Inr (False, s)
          else Inr (True, Post s (Post_handle_read_remote_supported_features handle)))"

definition ReadRemoteExtendedFeatures :: "impl \<Rightarrow> uint16_t \<Rightarrow> failure + bool \<times> impl" where
  "ReadRemoteExtendedFeatures s handle =
     (case check_and_get_connection s handle of
        Inl f \<Rightarrow> Inl f
      | Inr connection \<Rightarrow>
          if is_disconnected connection then Inr (False, s)
          else Inr (True, Post s (Post_handle_read_remote_extended_features handle)))"

definition ReadClock :: "impl \<Rightarrow> uint16_t \<Rightarrow> WhichClock \<Rightarrow> failure + bool \<times> impl" where
  "ReadClock s handle which_clock =
     (case check_and_get_connection s handle of
        Inl f \<Rightarrow> Inl f
      | Inr connection \<Rightarrow>
          if is_disconnected connection then Inr (False, s)
          else Inr (True, Post s (Post_handle_read_clock handle which_clock)))"

text \<open>
  \<^verbatim>\<open>LeConnectionUpdate\<close> stores the callback and its handler in the connection before
  it looks at the parameters.
\<close>

definition LeConnectionUpdate ::
  "impl \<Rightarrow> uint16_t \<Rightarrow> uint16_t \<Rightarrow> uint16_t \<Rightarrow> uint16_t \<Rightarrow> uint16_t \<Rightarrow> uint16_t \<Rightarrow> uint16_t
     \<Rightarrow> OnceCallback option \<Rightarrow> Handler option \<Rightarrow> failure + bool \<times> impl" where
  "LeConnectionUpdate s handle conn_interval_min conn_interval_max conn_latency
       supervision_timeout min_ce_length max_ce_length done_callback handler =
     (case check_and_get_connection s handle of
        Inl f \<Rightarrow> Inl f
      | Inr connection \<Rightarrow>
          if is_disconnected connection then Inr (False, s)
          else if on_connection_update_complete_callback connection \<noteq> None then Inr (False, s)
          else
            let s1 = set_connection s handle
                       (connection\<lparr>on_connection_update_complete_callback := done_callback,
                                   on_connection_update_complete_callback_handler := handler\<rparr>) in
            if conn_interval_min < 0x0006 \<or> conn_interval_min > 0x0C80 \<or> conn_interval_max < 0x0006 \<or>
               conn_interval_max > 0x0C80 \<or> conn_latency > 0x01F3 \<or> supervision_timeout < 0x000A \<or>
               supervision_timeout > 0x0C80
            then Inr (False, s1)
            else Inr (True, Post s1 (Post_handle_le_connection_update handle conn_interval_min
                                       conn_interval_max conn_latency supervision_timeout
                                       min_ce_length max_ce_length)))"

text \<open>The two posted functions that the statements below run.\<close>

definition handle_disconnect :: "impl \<Rightarrow> uint16_t \<Rightarrow> DisconnectReason \<Rightarrow> failure + impl" where
  "handle_disconnect s handle reason =
     (if find_connection s handle = None then Inl ASSERT_failed
      else Inr (EnqueueCommand s (DisconnectBuilder handle reason)))"

definition handle_le_connection_update ::
  "impl \<Rightarrow> uint16_t \<Rightarrow> uint16_t \<Rightarrow> uint16_t \<Rightarrow> uint16_t \<Rightarrow> uint16_t \<Rightarrow> uint16_t \<Rightarrow> uint16_t \<Rightarrow> impl" where
  "handle_le_connection_update s handle conn_interval_min conn_interval_max conn_latency
       supervision_timeout min_ce_length max_ce_length =
     EnqueueCommand s
       (LeConnectionUpdateBuilder handle conn_interval_min conn_interval_max conn_latency
          supervision_timeout min_ce_length max_ce_length)"

text \<open>
  A call of one of the boolean methods of \<^verbatim>\<open>ClassicAclConnection\<close> or
  \<^verbatim>\<open>LeAclConnection\<close>, with its arguments; \<open>call\<close> is the forwarding to \<^verbatim>\<open>impl\<close> with
  the handle of the proxy.
\<close>

datatype Operation =
    Call_Disconnect DisconnectReason
  | Call_ChangeConnectionPacketType uint16_t
  | Call_AuthenticationRequested
  | Call_SetConnectionEncryption Enable
  | Call_ChangeConnectionLinkKey
  | Call_ReadClockOffset
  | Call_HoldMode uint16_t uint16_t
  | Call_SniffMode uint16_t uint16_t uint16_t uint16_t
  | Call_ExitSniffMode
  | Call_QosSetup ServiceType uint32_t uint32_t uint32_t uint32_t
  | Call_RoleDiscovery
  | Call_ReadLinkPolicySettings
  | Call_WriteLinkPolicySettings uint16_t
  | Call_FlowSpecification FlowDirection ServiceType uint32_t uint32_t uint32_t uint32_t
  | Call_SniffSubrating uint16_t uint16_t uint16_t
  | Call_Flush
  | Call_ReadAutomaticFlushTimeout
  | Call_WriteAutomaticFlushTimeout uint16_t
  | Call_ReadTransmitPowerLevel TransmitPowerLevelType
  | Call_ReadLinkSupervisionTimeout
  | Call_WriteLinkSupervisionTimeout uint16_t
  | Call_ReadFailedContactCounter
  | Call_ResetFailedContactCounter
  | Call_ReadLinkQuality
  | Call_ReadAfhChannelMap
  | Call_ReadRssi
  | Call_ReadRemoteVersionInformation
  | Call_ReadRemoteSupportedFeatures
  | Call_ReadRemoteExtendedFeatures
  | Call_ReadClock WhichClock
  | Call_LeConnectionUpdate uint16_t uint16_t uint16_t uint16_t uint16_t uint16_t "OnceCallback option" "Handler option"

fun call :: "impl \<Rightarrow> uint16_t \<Rightarrow> Operation \<Rightarrow> failure + bool \<times> impl" where
  "call s handle (Call_Disconnect a1) = Disconnect s handle a1"
| "call s handle (Call_ChangeConnectionPacketType a1) = ChangeConnectionPacketType s handle a1"
| "call s handle Call_AuthenticationRequested = AuthenticationRequested s handle"
| "call s handle (Call_SetConnectionEncryption a1) = SetConnectionEncryption s handle a1"
| "call s handle Call_ChangeConnectionLinkKey = ChangeConnectionLinkKey s handle"
| "call s handle Call_ReadClockOffset = ReadClockOffset s handle"
| "call s handle (Call_HoldMode a1 a2) = HoldMode s handle a1 a2"
| "call s handle (Call_SniffMode a1 a2 a3 a4) = SniffMode s handle a1 a2 a3 a4"
| "call s handle Call_ExitSniffMode = ExitSniffMode s handle"
| "call s handle (Call_QosSetup a1 a2 a3 a4 a5) = QosSetup s handle a1 a2 a3 a4 a5"
| "call s handle Call_RoleDiscovery = RoleDiscovery s handle"
| "call s handle Call_ReadLinkPolicySettings = ReadLinkPolicySettings s handle"
| "call s handle (Call_WriteLinkPolicySettings a1) = WriteLinkPolicySettings s handle a1"
| "call s handle (Call_FlowSpecification a1 a2 a3 a4 a5 a6) = FlowSpecification s handle a1 a2 a3 a4 a5 a6"
| "call s handle (Call_SniffSubrating a1 a2 a3) = SniffSubrating s handle a1 a2 a3"
| "call s handle Call_Flush = Flush s handle"
| "call s handle Call_ReadAutomaticFlushTimeout = ReadAutomaticFlushTimeout s handle"
| "call s handle (Call_WriteAutomaticFlushTimeout a1) = WriteAutomaticFlushTimeout s handle a1"
| "call s handle (Call_ReadTransmitPowerLevel a1) = ReadTransmitPowerLevel s handle a1"
| "call s handle Call_ReadLinkSupervisionTimeout = ReadLinkSupervisionTimeout s handle"
| "call s handle (Call_WriteLinkSupervisionTimeout a1) = WriteLinkSupervisionTimeout s handle a1"
| "call s handle Call_ReadFailedContactCounter = ReadFailedContactCounter s handle"
| "call s handle Call_ResetFailedContactCounter = ResetFailedContactCounter s handle"
| "call s handle Call_ReadLinkQuality = ReadLinkQuality s handle"
| "call s handle Call_ReadAfhChannelMap = ReadAfhChannelMap s handle"
| "call s handle Call_ReadRssi = ReadRssi s handle"
| "call s handle Call_ReadRemoteVersionInformation = ReadRemoteVersionInformation s handle"
| "call s handle Call_ReadRemoteSupportedFeatures = ReadRemoteSupportedFeatures s handle"
| "call s handle Call_ReadRemoteExtendedFeatures = ReadRemoteExtendedFeatures s handle"
| "call s handle (Call_ReadClock a1) = ReadClock s handle a1"
| "call s handle (Call_LeConnectionUpdate a1 a2 a3 a4 a5 a6 done_callback handler) =
     LeConnectionUpdate s handle a1 a2 a3 a4 a5 a6 done_callback handler"

subsection \<open>Sequences of calls, and the states and inputs of the examples\<close>

text \<open>Calls of operations through one proxy, one after the other; a failure ends the run.\<close>

fun calls :: "impl \<Rightarrow> uint16_t \<Rightarrow> Operation list \<Rightarrow> failure + bool list \<times> impl" where
  "calls s handle [] = Inr ([], s)"
| "calls s handle (operation # operations) =
     (case call s handle operation of
        Inl f \<Rightarrow> Inl f
      | Inr (result, s1) \<Rightarrow>
          (case calls s1 handle operations of
             Inl f \<Rightarrow> Inl f
           | Inr (results, s2) \<Rightarrow> Inr (result # results, s2)))"

text \<open>
  Two readings of ``the CONTINUING payloads fit the count \<open>r\<close> of bytes still to come'':
  \<open>continuations_fit\<close> asks that each payload is no longer than the count left before it
  and that the count ends at zero; \<open>continuations_pending\<close> asks moreover that the count
  is positive before each payload, so that no fragment comes after the last byte.
\<close>

fun continuations_fit :: "nat \<Rightarrow> byte list list \<Rightarrow> bool" where
  "continuations_fit r [] = (r = 0)"
| "continuations_fit r (p # ps) = (length p \<le> r \<and> continuations_fit (r - length p) ps)"

fun continuations_pending :: "nat \<Rightarrow> byte list list \<Rightarrow> bool" where
  "continuations_pending r [] = (r = 0)"
| "continuations_pending r (p # ps) =
     (0 < r \<and> length p \<le> r \<and> continuations_pending (r - length p) ps)"

definition fragment :: "PacketBoundaryFlag \<Rightarrow> byte list \<Rightarrow> AclPacketView" where
  "fragment f p =
     \<lparr>AclPacketView.IsValid = True, GetHandle = 0x40, GetPacketBoundaryFlag = f, GetPayload = p\<rparr>"

definition peer_A :: Address where
  "peer_A = [0xAA, 0xBB, 0xCC, 0xDD, 0xEE, 0xFF]"

definition peer_B :: Address where
  "peer_B = [0x11, 0x22, 0x33, 0x44, 0x55, 0x66]"

definition peer_C :: Address where
  "peer_C = [0x01, 0x02, 0x03, 0x04, 0x05, 0x06]"

text \<open>Packets and event views for the examples: validity, status and handle vary.\<close>

definition invalid_packet :: AclPacketView where
  "invalid_packet =
     \<lparr>AclPacketView.IsValid = False, GetHandle = 0x40,
      GetPacketBoundaryFlag = FIRST_AUTOMATICALLY_FLUSHABLE, GetPayload = []\<rparr>"

definition debug_packet :: AclPacketView where
  "debug_packet =
     \<lparr>AclPacketView.IsValid = True, GetHandle = 0xEDC,
      GetPacketBoundaryFlag = FIRST_AUTOMATICALLY_FLUSHABLE, GetPayload = [4, 0, 1, 0, 1, 2, 3, 4]\<rparr>"

definition connection_complete_event :: "bool \<Rightarrow> ErrorCode \<Rightarrow> uint16_t \<Rightarrow> ConnectionCompleteView" where
  "connection_complete_event valid status handle =
     \<lparr>ConnectionCompleteView.IsValid = valid, GetStatus = status, GetConnectionHandle = handle,
      GetBdAddr = peer_B\<rparr>"

definition le_connection_complete_event ::
  "bool \<Rightarrow> ErrorCode \<Rightarrow> uint16_t \<Rightarrow> LeConnectionCompleteView" where
  "le_connection_complete_event valid status handle =
     \<lparr>LeConnectionCompleteView.IsValid = valid, GetStatus = status, GetConnectionHandle = handle,
      GetPeerAddress = peer_B, GetPeerAddressType = PUBLIC_DEVICE_ADDRESS, GetRole = MASTER\<rparr>"

definition disconnection_complete_event ::
  "bool \<Rightarrow> ErrorCode \<Rightarrow> uint16_t \<Rightarrow> DisconnectionCompleteView" where
  "disconnection_complete_event valid status handle =
     \<lparr>DisconnectionCompleteView.IsValid = valid, GetStatus = status, GetConnectionHandle = handle,
      GetReason = 0x13\<rparr>"

definition packet_type_changed_event ::
  "bool \<Rightarrow> ErrorCode \<Rightarrow> uint16_t \<Rightarrow> ConnectionPacketTypeChangedView" where
  "packet_type_changed_event valid status handle =
     \<lparr>ConnectionPacketTypeChangedView.IsValid = valid, GetStatus = status,
      GetConnectionHandle = handle, GetPacketType = 0xCC18\<rparr>"

definition authentication_complete_event ::
  "bool \<Rightarrow> ErrorCode \<Rightarrow> uint16_t \<Rightarrow> AuthenticationCompleteView" where
  "authentication_complete_event valid status handle =
     \<lparr>AuthenticationCompleteView.IsValid = valid, GetStatus = status,
      GetConnectionHandle = handle\<rparr>"

definition mode_change_event :: "bool \<Rightarrow> ErrorCode \<Rightarrow> uint16_t \<Rightarrow> ModeChangeView" where
  "mode_change_event valid status handle =
     \<lparr>ModeChangeView.IsValid = valid, GetStatus = status, GetConnectionHandle = handle,
      GetCurrentMode = 0, GetInterval = 0\<rparr>"

definition le_connection_update_complete_event ::
  "bool \<Rightarrow> ErrorCode \<Rightarrow> uint16_t \<Rightarrow> LeConnectionUpdateCompleteView" where
  "le_connection_update_complete_event valid status handle =
     \<lparr>LeConnectionUpdateCompleteView.IsValid = valid, GetStatus = status,
      GetConnectionHandle = handle\<rparr>"

text \<open>A connection to \<open>peer_A\<close> as the constructor leaves it, and one whose inbound queue holds 11 PDUs.\<close>

definition idle_connection :: acl_connection where
  "idle_connection =
     new_acl_connection \<lparr>GetAddress = peer_A, GetAddressType = PUBLIC_DEVICE_ADDRESS\<rparr>"

definition congested_connection :: acl_connection where
  "congested_connection = idle_connection\<lparr>incoming_queue := replicate 11 [0, 0, 1, 0]\<rparr>"

text \<open>
  The manager after \<^verbatim>\<open>Start\<close> and the registration of the Classic and LE callbacks;
  then with a Classic connection on handle 0x40, live or disconnected; with an LE
  connection on handle 0x41; and with an outgoing Classic connection to \<open>peer_A\<close> in flight.
\<close>

definition started :: impl where
  "started =
     \<lparr> acl_connections = [], connecting = {}, connecting_le = {},
       pending_outgoing_connections = [], client_callbacks = Some 1, client_handler = Some 2,
       le_client_callbacks = Some 3, le_client_handler = Some 4, hci_commands = [],
       handler_tasks = [], callback_posts = [], scheduler_posts = [] \<rparr>"

definition connected :: impl where
  "connected = started\<lparr>acl_connections := [(0x40, idle_connection)]\<rparr>"

definition disconnected :: impl where
  "disconnected =
     started\<lparr>acl_connections := [(0x40, idle_connection\<lparr>is_disconnected := True\<rparr>)]\<rparr>"

definition awaiting_disconnection :: impl where
  "awaiting_disconnection = started\<lparr>acl_connections :=
      [(0x40, idle_connection\<lparr>disconnect_handler := Some 5, on_disconnect_callback := Some 6\<rparr>)]\<rparr>"

definition disconnection_reported :: impl where
  "disconnection_reported = started\<lparr>acl_connections :=
      [(0x40, idle_connection\<lparr>disconnect_handler := Some 5, is_disconnected := True,
                               disconnect_reason := 0x13\<rparr>)],
      callback_posts := [(5, Run_on_disconnect_callback (Some 6) 0x13)],
      scheduler_posts := [SetDisconnect 0x40]\<rparr>"

definition le_connected :: impl where
  "le_connected = started\<lparr>acl_connections :=
      [(0x41, new_acl_connection \<lparr>GetAddress = peer_B, GetAddressType = RANDOM_DEVICE_ADDRESS\<rparr>)]\<rparr>"

definition update_rejected :: impl where
  "update_rejected = started\<lparr>acl_connections :=
      [(0x41, (new_acl_connection \<lparr>GetAddress = peer_B, GetAddressType = RANDOM_DEVICE_ADDRESS\<rparr>)
               \<lparr>on_connection_update_complete_callback := Some 7,
                on_connection_update_complete_callback_handler := Some 8\<rparr>)]\<rparr>"

definition connecting_A :: impl where
  "connecting_A = started\<lparr>connecting := {peer_A},
      hci_commands := [CreateConnectionBuilder peer_A 0xCC18 R1 0 INVALID ALLOW_ROLE_SWITCH]\<rparr>"

definition queued_B :: impl where
  "queued_B = connecting_A\<lparr>pending_outgoing_connections :=
      [(peer_B, CreateConnectionBuilder peer_B 0xCC18 R1 0 INVALID ALLOW_ROLE_SWITCH)]\<rparr>"

definition failed_A :: impl where
  "failed_A = queued_B\<lparr>connecting := {},
      callback_posts := [(2, OnConnectFail (Some 1) peer_A 0x04)]\<rparr>"

section \<open>Facts about the model\<close>

lemmas reassembler_defs = on_incoming_packets_def on_incoming_packet_def recombine_def
  GetL2capPduSize_def size_of_def kL2capBasicFrameHeaderSize_def
  kMaxQueuedPacketsPerConnection_def fragment_def idle_connection_def new_acl_connection_def
  congested_connection_def Let_def word_sless_alt

lemmas state_defs = started_def connected_def disconnected_def le_connected_def connecting_A_def
  idle_connection_def new_acl_connection_def peer_A_def peer_B_def peer_C_def

lemmas effect_defs = EnqueueCommand_def Post_def Post_to_def Post_to_scheduler_def
  find_connection_def set_connection_def check_and_get_connection_def
  is_classic_link_already_connected_def SUCCESS_def Let_def

lemmas event_defs = invalid_packet_def debug_packet_def connection_complete_event_def
  le_connection_complete_event_def disconnection_complete_event_def packet_type_changed_event_def
  authentication_complete_event_def mode_change_event_def le_connection_update_complete_event_def

lemmas operation_defs =
  Disconnect_def ChangeConnectionPacketType_def AuthenticationRequested_def
  SetConnectionEncryption_def ChangeConnectionLinkKey_def ReadClockOffset_def HoldMode_def
  SniffMode_def ExitSniffMode_def QosSetup_def RoleDiscovery_def ReadLinkPolicySettings_def
  WriteLinkPolicySettings_def FlowSpecification_def SniffSubrating_def Flush_def
  ReadAutomaticFlushTimeout_def WriteAutomaticFlushTimeout_def ReadTransmitPowerLevel_def
  ReadLinkSupervisionTimeout_def WriteLinkSupervisionTimeout_def ReadFailedContactCounter_def
  ResetFailedContactCounter_def ReadLinkQuality_def ReadAfhChannelMap_def ReadRssi_def
  ReadRemoteVersionInformation_def ReadRemoteSupportedFeatures_def
  ReadRemoteExtendedFeatures_def ReadClock_def LeConnectionUpdate_def

subsection \<open>Integer conversions of the reassembler\<close>

lemma unat_byte_less: "unat (b :: byte) < 256"
  using unsigned_less [of b, where ?'a = nat] by simp

lemma unat_ucast_byte: "unat (ucast (b :: byte) :: cint) = unat b"
  using unat_byte_less [of b] by (simp add: unsigned_ucast_eq take_bit_nat_eq_self)

lemma pdu_size_bytes:
  fixes b0 b1 :: byte
  shows "unat (ucast (push_bit 8 (ucast b1 :: cint) + (ucast b0 :: cint)) :: uint16_t)
         = unat b0 + 256 * unat b1"
proof -
  have b0: "unat b0 < 256" and b1: "unat b1 < 256" by (rule unat_byte_less)+
  have p: "unat (push_bit 8 (ucast b1 :: cint)) = 256 * unat b1"
    using b1 by (simp add: push_bit_eq_mult unat_word_ariths unat_ucast_byte)
  have s: "unat (push_bit 8 (ucast b1 :: cint) + (ucast b0 :: cint)) = unat b0 + 256 * unat b1"
    using b0 b1 by (simp add: unat_word_ariths p unat_ucast_byte)
  show ?thesis
    using b0 b1 by (simp add: unsigned_ucast_eq s take_bit_nat_eq_self)
qed

lemma sint_of_nat_small: "r < 2 ^ 31 \<Longrightarrow> sint (of_nat r :: cint) = int r"
  by (simp add: signed_of_nat signed_take_bit_int_eq_self)

lemma scast_of_nat_small: "r < 2 ^ 31 \<Longrightarrow> (scast (of_nat r :: cint) :: size_t) = of_nat r"
  by (simp add: scast_eq sint_of_nat_small)

lemma ucast_diff_of_nat:
  assumes "r < 2 ^ 31" "n \<le> r"
  shows "(ucast ((of_nat r :: size_t) - of_nat n) :: cint) = of_nat (r - n)"
proof -
  have "(of_nat r :: size_t) - of_nat n = of_nat (r - n)" using assms by simp
  moreover have "r - n < 2 ^ 64" using assms by simp
  then have "(ucast (of_nat (r - n) :: size_t) :: cint) = of_nat (r - n)"
    by (simp add: unsigned_of_nat take_bit_nat_eq_self)
  ultimately show ?thesis by simp
qed

lemma size_t_less_of_nat:
  "r < 2 ^ 64 \<Longrightarrow> n < 2 ^ 64 \<Longrightarrow> ((of_nat r :: size_t) < of_nat n) = (r < n)"
  by (simp add: word_of_nat_less_iff take_bit_nat_eq_self)

lemma cint_of_nat_eq_0:
  assumes "r < 2 ^ 31"
  shows "((of_nat r :: cint) = 0) = (r = 0)"
proof -
  from assms have "unat (of_nat r :: cint) = r" by (simp add: unat_of_nat)
  then show ?thesis using unsigned_eq_0_iff [of "of_nat r :: cint", where ?'a = nat] by auto
qed

lemma cint_of_nat_pos: "r < 2 ^ 31 \<Longrightarrow> (0 <s (of_nat r :: cint)) = (0 < r)"
  by (simp add: word_sless_alt sint_of_nat_small)

lemma recombine_continuing:
  assumes "GetPacketBoundaryFlag p = CONTINUING_FRAGMENT"
    and "remaining_sdu_continuation_packet_size c = of_nat r" and "r < 2 ^ 31"
    and "length (GetPayload p) \<le> r"
  shows "recombine c p =
    (if length (GetPayload p) < r
     then (c\<lparr>remaining_sdu_continuation_packet_size := of_nat (r - length (GetPayload p)),
              recombination_stage := recombination_stage c @ GetPayload p\<rparr>, None)
     else (c\<lparr>remaining_sdu_continuation_packet_size := 0, recombination_stage := []\<rparr>,
           Some (recombination_stage c @ GetPayload p)))"
proof -
  let ?n = "length (GetPayload p)"
  have n64: "?n < 2 ^ 64" and r64: "r < 2 ^ 64" using assms(3,4) by simp_all
  have g: "\<not> (of_nat r :: size_t) < of_nat ?n"
    using assms(4) by (simp add: size_t_less_of_nat [OF r64 n64])
  have d: "(ucast ((of_nat r :: size_t) - of_nat ?n) :: cint) = of_nat (r - ?n)"
    by (rule ucast_diff_of_nat [OF assms(3,4)])
  have z: "((of_nat (r - ?n) :: cint) = 0) = (r - ?n = 0)"
    by (rule cint_of_nat_eq_0) (use assms(3) in simp)
  show ?thesis
    unfolding recombine_def Let_def size_of_def assms(2) scast_of_nat_small [OF assms(3)] d
    using assms(1,4) g z by simp
qed

lemma GetL2capPduSize_little_endian:
  assumes "4 \<le> length (GetPayload p)" and "length (GetPayload p) < 2 ^ 64"
  shows "unat (GetL2capPduSize p) = unat (GetPayload p ! 0) + 256 * unat (GetPayload p ! 1)"
proof -
  have "\<not> (of_nat (length (GetPayload p)) :: size_t) < 4"
    using size_t_less_of_nat [of "length (GetPayload p)" 4] assms by simp
  then have "\<not> size_of (GetPayload p) < scast kL2capBasicFrameHeaderSize"
    by (simp add: size_of_def kL2capBasicFrameHeaderSize_def)
  then show ?thesis
    by (simp add: GetL2capPduSize_def Let_def pdu_size_bytes)
qed

lemma recombine_first:
  assumes "GetPacketBoundaryFlag p = FIRST_AUTOMATICALLY_FLUSHABLE"
    and "4 \<le> length (GetPayload p)"
    and "length (GetPayload p) \<le> unat (GetL2capPduSize p) + 4"
  shows "recombine c p =
    (let r = unat (GetL2capPduSize p) + 4 - length (GetPayload p);
         c1 = c\<lparr>remaining_sdu_continuation_packet_size := of_nat r\<rparr> in
     if 0 < r then (c1\<lparr>recombination_stage := GetPayload p\<rparr>, None)
     else (c1, Some (GetPayload p)))"
proof -
  let ?n = "length (GetPayload p)"
  let ?L = "unat (GetL2capPduSize p)"
  let ?r = "?L + 4 - ?n"
  have L: "?L < 2 ^ 16" using unsigned_less [of "GetL2capPduSize p", where ?'a = nat] by simp
  have r31: "?L < 2 ^ 31" using L by simp
  have h: "(of_nat ?n :: size_t) - scast kL2capBasicFrameHeaderSize = of_nat (?n - 4)"
    using assms(2) by (simp add: kL2capBasicFrameHeaderSize_def)
  have u: "(ucast (GetL2capPduSize p) :: size_t) = of_nat ?L"
    by simp
  have d: "(ucast ((of_nat ?L :: size_t) - of_nat (?n - 4)) :: cint) = of_nat (?L - (?n - 4))"
    by (rule ucast_diff_of_nat [OF r31]) (use assms(3) in simp)
  have e: "?L - (?n - 4) = ?r" using assms(2) by simp
  have r: "?r < 2 ^ 31" using L by simp
  show ?thesis
    unfolding recombine_def Let_def size_of_def h u d e
    using assms(1) by (simp add: cint_of_nat_pos [OF r])
qed

lemma continuations_pending_length:
  "continuations_pending r ps \<Longrightarrow> length (concat ps) = r"
  by (induction ps arbitrary: r) auto

lemma continuations_pending_zero: "continuations_pending 0 ps \<Longrightarrow> ps = []"
  by (cases ps) simp_all

lemma continuations_reassemble:
  assumes "continuations_pending r (map GetPayload ps)"
    and "\<forall>p \<in> set ps. GetPacketBoundaryFlag p = CONTINUING_FRAGMENT"
    and "0 < r" and "r < 2 ^ 31"
    and "remaining_sdu_continuation_packet_size c = of_nat r"
    and "length (incoming_queue c) \<le> 10"
  shows "incoming_queue (on_incoming_packets c ps)
           = incoming_queue c @ [recombination_stage c @ concat (map GetPayload ps)]
       \<and> recombination_stage (on_incoming_packets c ps) = []
       \<and> remaining_sdu_continuation_packet_size (on_incoming_packets c ps) = 0"
  using assms
proof (induction ps arbitrary: c r)
  case Nil
  then show ?case by simp
next
  case (Cons p ps)
  let ?n = "length (GetPayload p)"
  from Cons.prems(1) have n: "?n \<le> r"
    and rest: "continuations_pending (r - ?n) (map GetPayload ps)" by simp_all
  from Cons.prems(2) have flag: "GetPacketBoundaryFlag p = CONTINUING_FRAGMENT"
    and flags: "\<forall>q \<in> set ps. GetPacketBoundaryFlag q = CONTINUING_FRAGMENT" by simp_all
  note step = recombine_continuing [OF flag Cons.prems(5) Cons.prems(4) n]
  show ?case
  proof (cases "?n < r")
    case True
    let ?c1 = "on_incoming_packet c p"
    have c1: "?c1 = c\<lparr>remaining_sdu_continuation_packet_size := of_nat (r - ?n),
                       recombination_stage := recombination_stage c @ GetPayload p\<rparr>"
      using True by (simp add: on_incoming_packet_def step)
    have "incoming_queue (on_incoming_packets ?c1 ps)
            = incoming_queue ?c1 @ [recombination_stage ?c1 @ concat (map GetPayload ps)]
        \<and> recombination_stage (on_incoming_packets ?c1 ps) = []
        \<and> remaining_sdu_continuation_packet_size (on_incoming_packets ?c1 ps) = 0"
    proof (rule Cons.IH [OF rest flags])
      show "0 < r - ?n" using True by simp
      show "r - ?n < 2 ^ 31" using Cons.prems(4) by simp
      show "remaining_sdu_continuation_packet_size ?c1 = of_nat (r - ?n)" by (simp add: c1)
      show "length (incoming_queue ?c1) \<le> 10" using Cons.prems(6) by (simp add: c1)
    qed
    then show ?thesis by (simp add: on_incoming_packets_def c1)
  next
    case False
    with n have eq: "?n = r" by simp
    with rest have ps: "ps = []"
      using continuations_pending_zero [of "map GetPayload ps"] by simp
    have "on_incoming_packet c p =
            c\<lparr>remaining_sdu_continuation_packet_size := 0, recombination_stage := [],
              incoming_queue := incoming_queue c @ [recombination_stage c @ GetPayload p],
              enqueue_registered := True\<rparr>"
      using False Cons.prems(6)
      by (simp add: on_incoming_packet_def step kMaxQueuedPacketsPerConnection_def)
    then show ?thesis by (simp add: on_incoming_packets_def ps)
  qed
qed

lemma size_t_of_nat_pos: "0 < n \<Longrightarrow> n < 2 ^ 64 \<Longrightarrow> (0 :: size_t) < of_nat n"
  using size_t_less_of_nat [of 0 n] by simp

subsection \<open>Lookups after updates\<close>

lemma find_connection_set_connection:
  "find_connection (set_connection s h c) h' =
     (if h' = h \<and> find_connection s h \<noteq> None then Some c else find_connection s h')"
proof -
  have "map_of (map (\<lambda>(k, old). if k = h then (k, c) else (k, old)) xs) h' =
        (if h' = h \<and> map_of xs h \<noteq> None then Some c else map_of xs h')" for xs
    by (induction xs) auto
  then show ?thesis by (simp add: find_connection_def set_connection_def)
qed

lemma find_connection_effects [simp]:
  "find_connection (Post_to_scheduler s sc) h = find_connection s h"
  "find_connection (Post s task) h = find_connection s h"
  "find_connection (EnqueueCommand s packet) h = find_connection s h"
  by (simp_all add: find_connection_def Post_to_scheduler_def Post_def EnqueueCommand_def)

lemma find_connection_Post_to:
  "Post_to s handler cb = Inr s' \<Longrightarrow> find_connection s' h = find_connection s h"
  by (auto simp: Post_to_def find_connection_def split: option.splits)

lemma on_disconnection_complete_sets_flag:
  assumes "on_disconnection_complete s dc = Inr s'"
    and "DisconnectionCompleteView.GetStatus dc = SUCCESS"
  shows "\<exists>c. find_connection s' (DisconnectionCompleteView.GetConnectionHandle dc) = Some c
             \<and> is_disconnected c"
proof -
  let ?h = "DisconnectionCompleteView.GetConnectionHandle dc"
  from assms obtain c where c: "find_connection s ?h = Some c"
    by (auto simp: on_disconnection_complete_def Let_def split: if_splits option.splits)
  let ?c2 = "c\<lparr>is_disconnected := True, disconnect_reason := GetReason dc\<rparr>"
  let ?s2 = "set_connection (Post_to_scheduler (set_connection s ?h (c\<lparr>is_disconnected := True\<rparr>))
               (SetDisconnect ?h)) ?h ?c2"
  from assms c have call: "call_disconnect_callback ?s2 ?h ?c2 = Inr s'"
    by (auto simp: on_disconnection_complete_def Let_def split: if_splits)
  then obtain s3 where p: "Post_to ?s2 (disconnect_handler ?c2)
        (Run_on_disconnect_callback (on_disconnect_callback ?c2) (disconnect_reason ?c2)) = Inr s3"
    and s': "s' = set_connection s3 ?h (?c2\<lparr>on_disconnect_callback := None\<rparr>)"
    by (auto simp: call_disconnect_callback_def split: sum.splits)
  have "find_connection s3 ?h = find_connection ?s2 ?h" by (rule find_connection_Post_to [OF p])
  also have "\<dots> = Some ?c2" using c by (simp add: find_connection_set_connection)
  finally have "find_connection s' ?h = Some (?c2\<lparr>on_disconnect_callback := None\<rparr>)"
    by (simp add: s' find_connection_set_connection)
  then show ?thesis by simp
qed

lemma find_connection_after_classic_complete:
  "find_connection (on_classic_connection_complete s a) h = find_connection s h"
  by (simp add: on_classic_connection_complete_def find_connection_def)

lemma find_connection_after_le_complete:
  "find_connection (on_common_le_connection_complete s a) h = find_connection s h"
  by (simp add: on_common_le_connection_complete_def find_connection_def)

lemma call_on_disconnected:
  assumes "find_connection s handle = Some connection" and "is_disconnected connection"
  shows "call s handle operation = Inr (False, s)"
  using assms by (cases operation) (simp_all add: operation_defs check_and_get_connection_def)

subsection \<open>When the router and the event handlers return\<close>

lemma router_behaviour:
  "dequeue_and_route_acl_packet_to_connection s (Some packet) =
     Inr (if \<not> AclPacketView.IsValid packet \<or> GetHandle packet = kQualcommDebugHandle then s
          else case find_connection s (GetHandle packet) of
                 None \<Rightarrow> s
               | Some connection \<Rightarrow>
                   set_connection s (GetHandle packet) (on_incoming_packet connection packet))"
  by (simp add: dequeue_and_route_acl_packet_to_connection_def Let_def split: option.split)

lemma acl_connections_issue_pending_connection:
  "acl_connections (issue_pending_connection s pending) = acl_connections s"
  by (induction pending) (simp_all add: EnqueueCommand_def)

lemma on_connection_complete_fails:
  "\<not> ConnectionCompleteView.IsValid cc \<Longrightarrow> on_connection_complete s cc = Inl ASSERT_failed"
  "ConnectionCompleteView.IsValid cc \<Longrightarrow> ConnectionCompleteView.GetStatus cc = SUCCESS
     \<Longrightarrow> find_connection s (ConnectionCompleteView.GetConnectionHandle cc) \<noteq> None
     \<Longrightarrow> on_connection_complete s cc = Inl ASSERT_failed"
  by (simp_all add: on_connection_complete_def Let_def find_connection_after_classic_complete)

lemma on_connection_complete_error_status:
  assumes "ConnectionCompleteView.IsValid cc"
    and "ConnectionCompleteView.GetStatus cc \<noteq> SUCCESS"
    and "client_handler s \<noteq> None"
  shows "\<exists>s'. on_connection_complete s cc = Inr s' \<and> acl_connections s' = acl_connections s"
  using assms
  by (auto simp: on_connection_complete_def Let_def Post_to_def on_classic_connection_complete_def)

lemma on_connection_complete_success:
  assumes "ConnectionCompleteView.IsValid cc"
    and "ConnectionCompleteView.GetStatus cc = SUCCESS"
    and "find_connection s (ConnectionCompleteView.GetConnectionHandle cc) = None"
    and "client_handler s \<noteq> None"
  shows "\<exists>s'. on_connection_complete s cc = Inr s'
            \<and> find_connection s' (ConnectionCompleteView.GetConnectionHandle cc) =
                Some (new_acl_connection
                        \<lparr>GetAddress = GetBdAddr cc, GetAddressType = PUBLIC_DEVICE_ADDRESS\<rparr>)"
proof -
  let ?s1 = "on_classic_connection_complete s (GetBdAddr cc)"
  have a: "map_of (acl_connections ?s1) (ConnectionCompleteView.GetConnectionHandle cc) = None"
    using assms(3) by (simp add: on_classic_connection_complete_def find_connection_def)
  have h: "client_handler ?s1 \<noteq> None"
    using assms(4) by (simp add: on_classic_connection_complete_def)
  show ?thesis
    using assms(1,2) a h
    by (auto simp: on_connection_complete_def Let_def Post_to_def Post_to_scheduler_def
        find_connection_def acl_connections_issue_pending_connection map_add_def)
qed

lemma on_le_connection_complete_fails:
  "\<not> LeConnectionCompleteView.IsValid lc \<Longrightarrow> on_le_connection_complete s lc = Inl ASSERT_failed"
  "LeConnectionCompleteView.IsValid lc \<Longrightarrow> LeConnectionCompleteView.GetStatus lc = SUCCESS
     \<Longrightarrow> find_connection s (LeConnectionCompleteView.GetConnectionHandle lc) \<noteq> None
     \<Longrightarrow> on_le_connection_complete s lc = Inl ASSERT_failed"
  by (simp_all add: on_le_connection_complete_def Let_def find_connection_after_le_complete)

lemma on_le_connection_complete_error_status:
  assumes "LeConnectionCompleteView.IsValid lc"
    and "LeConnectionCompleteView.GetStatus lc \<noteq> SUCCESS"
    and "le_client_handler s \<noteq> None"
  shows "\<exists>s'. on_le_connection_complete s lc = Inr s' \<and> acl_connections s' = acl_connections s"
  using assms
  by (auto simp: on_le_connection_complete_def Let_def Post_to_def
      on_common_le_connection_complete_def)

lemma on_le_connection_complete_success:
  assumes "LeConnectionCompleteView.IsValid lc"
    and "LeConnectionCompleteView.GetStatus lc = SUCCESS"
    and "find_connection s (LeConnectionCompleteView.GetConnectionHandle lc) = None"
    and "le_client_handler s \<noteq> None"
  shows "\<exists>s'. on_le_connection_complete s lc = Inr s'
            \<and> find_connection s' (LeConnectionCompleteView.GetConnectionHandle lc) =
                Some (new_acl_connection
                        \<lparr>GetAddress = GetPeerAddress lc,
                         GetAddressType = GetPeerAddressType lc\<rparr>)"
proof -
  let ?s1 = "on_common_le_connection_complete s
               \<lparr>GetAddress = GetPeerAddress lc, GetAddressType = GetPeerAddressType lc\<rparr>"
  have a: "map_of (acl_connections ?s1) (LeConnectionCompleteView.GetConnectionHandle lc) = None"
    using assms(3) by (simp add: on_common_le_connection_complete_def find_connection_def)
  have h: "le_client_handler ?s1 \<noteq> None"
    using assms(4) by (simp add: on_common_le_connection_complete_def)
  show ?thesis
    using assms(1,2) a h
    by (auto simp: on_le_connection_complete_def Let_def Post_to_def Post_to_scheduler_def
        find_connection_def map_add_def)
qed

lemma on_disconnection_complete_fails:
  "\<not> DisconnectionCompleteView.IsValid dc \<Longrightarrow> on_disconnection_complete s dc = Inl ASSERT_failed"
  "DisconnectionCompleteView.IsValid dc \<Longrightarrow> DisconnectionCompleteView.GetStatus dc = SUCCESS
     \<Longrightarrow> find_connection s (DisconnectionCompleteView.GetConnectionHandle dc) = None
     \<Longrightarrow> on_disconnection_complete s dc = Inl ASSERT_failed"
  by (simp_all add: on_disconnection_complete_def Let_def)

lemma on_disconnection_complete_error_status:
  "DisconnectionCompleteView.IsValid dc \<Longrightarrow> DisconnectionCompleteView.GetStatus dc \<noteq> SUCCESS
     \<Longrightarrow> on_disconnection_complete s dc = Inr s"
  by (simp add: on_disconnection_complete_def Let_def)

lemma on_disconnection_complete_success:
  assumes "DisconnectionCompleteView.IsValid dc"
    and "DisconnectionCompleteView.GetStatus dc = SUCCESS"
    and "find_connection s (DisconnectionCompleteView.GetConnectionHandle dc) = Some c"
    and "disconnect_handler c \<noteq> None"
  shows "\<exists>s' c'. on_disconnection_complete s dc = Inr s'
            \<and> find_connection s' (DisconnectionCompleteView.GetConnectionHandle dc) = Some c'
            \<and> is_disconnected c'"
proof -
  from assms obtain s' where r: "on_disconnection_complete s dc = Inr s'"
    by (auto simp: on_disconnection_complete_def Let_def call_disconnect_callback_def Post_to_def)
  from on_disconnection_complete_sets_flag [OF r assms(2)] r show ?thesis by blast
qed

lemma handle_event_returns:
  "\<not> ConnectionPacketTypeChangedView.IsValid pt
     \<or> ConnectionPacketTypeChangedView.GetStatus pt \<noteq> SUCCESS
     \<Longrightarrow> on_connection_packet_type_changed s pt = Inr s"
  "find_connection s (ConnectionPacketTypeChangedView.GetConnectionHandle pt) \<noteq> None
     \<Longrightarrow> \<exists>s'. on_connection_packet_type_changed s pt = Inr s'"
  "\<not> AuthenticationCompleteView.IsValid ac
     \<or> AuthenticationCompleteView.GetStatus ac \<noteq> SUCCESS
     \<Longrightarrow> on_authentication_complete s ac = Inr s"
  "find_connection s (AuthenticationCompleteView.GetConnectionHandle ac) \<noteq> None
     \<Longrightarrow> \<exists>s'. on_authentication_complete s ac = Inr s'"
  "\<not> ModeChangeView.IsValid mc \<or> ModeChangeView.GetStatus mc \<noteq> SUCCESS
     \<Longrightarrow> on_mode_change s mc = Inr s"
  "find_connection s (ModeChangeView.GetConnectionHandle mc) \<noteq> None
     \<Longrightarrow> \<exists>s'. on_mode_change s mc = Inr s'"
  by (auto simp: on_connection_packet_type_changed_def on_authentication_complete_def
      on_mode_change_def Let_def Post_to_def)

lemma on_le_connection_update_complete_returns:
  "\<not> LeConnectionUpdateCompleteView.IsValid uc
     \<or> LeConnectionUpdateCompleteView.GetStatus uc \<noteq> SUCCESS
     \<or> find_connection s (LeConnectionUpdateCompleteView.GetConnectionHandle uc) = None
     \<Longrightarrow> on_le_connection_update_complete s uc = Inr s"
  by (auto simp: on_le_connection_update_complete_def Let_def)

section \<open>The claims\<close>

subsection \<open>Reassembly (C1, C3, C4, C5)\<close>

text \<open>
  C1, as stated, fails at two inputs that satisfy its conditions. First: a FIRST fragment
  that holds a whole PDU (length field 4, payload of 8 bytes), then a CONTINUING fragment
  with an empty payload; the payload sizes fit and sum to \<open>4 - (8 - 4) = 0\<close>, and two
  PDUs are enqueued, the second one empty. Second: the same FIRST fragment alone on a
  connection whose inbound queue holds 11 PDUs; nothing is enqueued.
\<close>

theorem reassembly_counterexample:
  "continuations_fit (4 + 4 - 8) [[]]
   \<and> incoming_queue (on_incoming_packets idle_connection
       [fragment FIRST_AUTOMATICALLY_FLUSHABLE [4, 0, 1, 0, 0xAA, 0xBB, 0xCC, 0xDD],
        fragment CONTINUING_FRAGMENT []])
     = [[4, 0, 1, 0, 0xAA, 0xBB, 0xCC, 0xDD], []]
   \<and> length (incoming_queue congested_connection) = 11
   \<and> incoming_queue (on_incoming_packets congested_connection
       [fragment FIRST_AUTOMATICALLY_FLUSHABLE [4, 0, 1, 0, 0xAA, 0xBB, 0xCC, 0xDD]])
     = incoming_queue congested_connection"
  by (simp add: reassembler_defs)

text \<open>
  C1, amended. The reassembly state is empty, the inbound queue holds at most 10 PDUs,
  the FIRST payload has at least 4 bytes and at most \<open>pdu_length + 4\<close>, where
  \<open>pdu_length\<close> is the little-endian value of its first two bytes, every CONTINUING
  fragment comes while bytes are still to come and is no longer than their count, and the
  counts end at zero. Then exactly one PDU is appended to the inbound queue, it is the
  concatenation of the payloads, it has \<open>pdu_length + 4\<close> bytes, and the recombination
  stage and the count of remaining bytes are empty afterwards.
\<close>

theorem reassembly_of_valid_fragment_sequence:
  assumes "recombination_stage c = []"
    and "remaining_sdu_continuation_packet_size c = 0"
    and "length (incoming_queue c) \<le> 10"
    and "GetPacketBoundaryFlag first = FIRST_AUTOMATICALLY_FLUSHABLE"
    and "4 \<le> length (GetPayload first)"
    and "pdu_length = unat (GetPayload first ! 0) + 256 * unat (GetPayload first ! 1)"
    and "length (GetPayload first) \<le> pdu_length + 4"
    and "\<forall>p \<in> set conts. GetPacketBoundaryFlag p = CONTINUING_FRAGMENT"
    and "continuations_pending (pdu_length + 4 - length (GetPayload first)) (map GetPayload conts)"
  shows "incoming_queue (on_incoming_packets c (first # conts))
           = incoming_queue c @ [GetPayload first @ concat (map GetPayload conts)]
       \<and> length (GetPayload first @ concat (map GetPayload conts)) = pdu_length + 4
       \<and> recombination_stage (on_incoming_packets c (first # conts)) = []
       \<and> remaining_sdu_continuation_packet_size (on_incoming_packets c (first # conts)) = 0"
proof -
  let ?n = "length (GetPayload first)"
  let ?r = "pdu_length + 4 - ?n"
  have b: "unat (GetPayload first ! 0) < 256" "unat (GetPayload first ! 1) < 256"
    by (rule unat_byte_less)+
  then have L16: "pdu_length < 2 ^ 16" using assms(6) by simp
  then have n64: "?n < 2 ^ 64" using assms(7) by simp
  have L: "unat (GetL2capPduSize first) = pdu_length"
    using GetL2capPduSize_little_endian [OF assms(5) n64] assms(6) by simp
  have fit: "?n \<le> unat (GetL2capPduSize first) + 4" using assms(7) L by simp
  note step = recombine_first [OF assms(4,5) fit, of c, unfolded L Let_def]
  have len: "length (GetPayload first @ concat (map GetPayload conts)) = pdu_length + 4"
    using continuations_pending_length [OF assms(9)] assms(7) by simp
  show ?thesis
  proof (cases "0 < ?r")
    case True
    let ?c1 = "on_incoming_packet c first"
    have c1: "?c1 = c\<lparr>remaining_sdu_continuation_packet_size := of_nat ?r,
                       recombination_stage := GetPayload first\<rparr>"
      using True by (simp add: on_incoming_packet_def step)
    have "incoming_queue (on_incoming_packets ?c1 conts)
            = incoming_queue ?c1 @ [recombination_stage ?c1 @ concat (map GetPayload conts)]
        \<and> recombination_stage (on_incoming_packets ?c1 conts) = []
        \<and> remaining_sdu_continuation_packet_size (on_incoming_packets ?c1 conts) = 0"
    proof (rule continuations_reassemble [OF assms(9,8) True])
      show "?r < 2 ^ 31" using L16 by simp
      show "remaining_sdu_continuation_packet_size ?c1 = of_nat ?r" by (simp add: c1)
      show "length (incoming_queue ?c1) \<le> 10" using assms(3) by (simp add: c1)
    qed
    then show ?thesis using len by (simp add: on_incoming_packets_def c1)
  next
    case False
    then have r0: "?r = 0" by simp
    with assms(9) have conts: "conts = []"
      using continuations_pending_zero [of "map GetPayload conts"] by simp
    have "on_incoming_packet c first =
            c\<lparr>remaining_sdu_continuation_packet_size := 0,
              incoming_queue := incoming_queue c @ [GetPayload first],
              enqueue_registered := True\<rparr>"
      using r0 assms(3)
      by (simp add: on_incoming_packet_def step kMaxQueuedPacketsPerConnection_def)
    then show ?thesis using len assms(1) by (simp add: on_incoming_packets_def conts)
  qed
qed

text \<open>The theorem at a PDU of 12 bytes in three fragments.\<close>

theorem reassembly_of_valid_fragment_sequence_witness:
  "incoming_queue (on_incoming_packets idle_connection
       [fragment FIRST_AUTOMATICALLY_FLUSHABLE [8, 0, 1, 0, 0x11, 0x22, 0x33, 0x44],
        fragment CONTINUING_FRAGMENT [0x55, 0x56],
        fragment CONTINUING_FRAGMENT [0x57, 0x58]])
     = [[8, 0, 1, 0, 0x11, 0x22, 0x33, 0x44, 0x55, 0x56, 0x57, 0x58]]
   \<and> recombination_stage (on_incoming_packets idle_connection
       [fragment FIRST_AUTOMATICALLY_FLUSHABLE [8, 0, 1, 0, 0x11, 0x22, 0x33, 0x44],
        fragment CONTINUING_FRAGMENT [0x55, 0x56],
        fragment CONTINUING_FRAGMENT [0x57, 0x58]]) = []"
proof -
  let ?first = "fragment FIRST_AUTOMATICALLY_FLUSHABLE [8, 0, 1, 0, 0x11, 0x22, 0x33, 0x44]"
  let ?conts = "[fragment CONTINUING_FRAGMENT [0x55, 0x56], fragment CONTINUING_FRAGMENT [0x57, 0x58]]"
  have h1: "recombination_stage idle_connection = []"
    and h2: "remaining_sdu_continuation_packet_size idle_connection = 0"
    and h3: "length (incoming_queue idle_connection) \<le> 10"
    by (simp_all add: idle_connection_def new_acl_connection_def)
  have h4: "GetPacketBoundaryFlag ?first = FIRST_AUTOMATICALLY_FLUSHABLE"
    and h5: "4 \<le> length (GetPayload ?first)"
    and h6: "(8::nat) = unat (GetPayload ?first ! 0) + 256 * unat (GetPayload ?first ! 1)"
    and h7: "length (GetPayload ?first) \<le> 8 + 4"
    by (simp_all add: fragment_def)
  have h8: "\<forall>p \<in> set ?conts. GetPacketBoundaryFlag p = CONTINUING_FRAGMENT"
    and h9: "continuations_pending (8 + 4 - length (GetPayload ?first)) (map GetPayload ?conts)"
    by (simp_all add: fragment_def)
  from reassembly_of_valid_fragment_sequence [OF h1 h2 h3 h4 h5 h6 h7 h8 h9]
  show ?thesis by (simp add: fragment_def idle_connection_def new_acl_connection_def)
qed

text \<open>
  A FIRST fragment that holds a whole PDU leaves the recombination stage as it finds it,
  whatever the stage holds.
\<close>

lemma complete_first_keeps_stage:
  assumes "GetPacketBoundaryFlag p = FIRST_AUTOMATICALLY_FLUSHABLE"
    and "4 \<le> length (GetPayload p)"
    and "length (GetPayload p) = unat (GetL2capPduSize p) + 4"
  shows "recombination_stage (on_incoming_packet c p) = recombination_stage c
       \<and> remaining_sdu_continuation_packet_size (on_incoming_packet c p) = 0"
proof -
  have fit: "length (GetPayload p) \<le> unat (GetL2capPduSize p) + 4" using assms(3) by simp
  show ?thesis
    using assms(3)
    by (simp add: on_incoming_packet_def recombine_first [OF assms(1,2) fit] Let_def)
qed

text \<open>
  C3 says that a FIRST fragment that arrives while the recombination stage is not empty
  discards the staged bytes, so that no later PDU contains them. The code only logs. When the new FIRST fragment holds a whole PDU the
  stage keeps the old bytes, and an empty CONTINUING fragment afterwards enqueues them.
  Here the fragments are FIRST (length 8, 4 of its 8 bytes present), FIRST (a whole PDU),
  CONTINUING (empty): after the second fragment the stage still holds the first payload,
  and after the third the inbound queue holds the whole PDU and then the stale bytes.
\<close>

theorem stale_stage_survives_complete_first:
  "recombination_stage (on_incoming_packets idle_connection
       [fragment FIRST_AUTOMATICALLY_FLUSHABLE [8, 0, 1, 0, 0x11, 0x22, 0x33, 0x44],
        fragment FIRST_AUTOMATICALLY_FLUSHABLE [4, 0, 1, 0, 0xAA, 0xBB, 0xCC, 0xDD]])
     = [8, 0, 1, 0, 0x11, 0x22, 0x33, 0x44]
   \<and> incoming_queue (on_incoming_packets idle_connection
       [fragment FIRST_AUTOMATICALLY_FLUSHABLE [8, 0, 1, 0, 0x11, 0x22, 0x33, 0x44],
        fragment FIRST_AUTOMATICALLY_FLUSHABLE [4, 0, 1, 0, 0xAA, 0xBB, 0xCC, 0xDD],
        fragment CONTINUING_FRAGMENT []])
     = [[4, 0, 1, 0, 0xAA, 0xBB, 0xCC, 0xDD], [8, 0, 1, 0, 0x11, 0x22, 0x33, 0x44]]"
  by (simp add: reassembler_defs)

text \<open>
  A CONTINUING fragment that arrives while the stage is empty and no bytes remain leaves
  the reassembly state empty; when its payload is not empty it is dropped and nothing is
  enqueued. (The size of a payload is a \<^verbatim>\<open>size_t\<close>, hence below \<open>2 ^ 64\<close>.)
\<close>

lemma stray_continuing_state_empty:
  assumes "GetPacketBoundaryFlag p = CONTINUING_FRAGMENT"
    and "recombination_stage c = []"
    and "remaining_sdu_continuation_packet_size c = 0"
    and "length (GetPayload p) < 2 ^ 64"
  shows "recombination_stage (on_incoming_packet c p) = []
       \<and> remaining_sdu_continuation_packet_size (on_incoming_packet c p) = 0
       \<and> (GetPayload p \<noteq> [] \<longrightarrow> incoming_queue (on_incoming_packet c p) = incoming_queue c)"
proof (cases "GetPayload p = []")
  case True
  then show ?thesis
    using assms(1,2,3)
    by (simp add: on_incoming_packet_def recombine_def size_of_def Let_def
        kMaxQueuedPacketsPerConnection_def)
next
  case False
  then have "(0 :: size_t) < of_nat (length (GetPayload p))"
    using assms(4) by (simp add: size_t_of_nat_pos)
  then show ?thesis
    using False assms(1,2,3)
    by (simp add: on_incoming_packet_def recombine_def size_of_def Let_def)
qed

text \<open>
  With an empty payload the fragment passes the test \<^verbatim>\<open>remaining < payload_size\<close>, and
  the empty stage is pushed to the inbound queue, in every such state whose queue holds at
  most 10 PDUs.
\<close>

lemma stray_empty_continuing_enqueued:
  assumes "GetPacketBoundaryFlag p = CONTINUING_FRAGMENT"
    and "GetPayload p = []"
    and "recombination_stage c = []"
    and "remaining_sdu_continuation_packet_size c = 0"
    and "length (incoming_queue c) \<le> 10"
  shows "incoming_queue (on_incoming_packet c p) = incoming_queue c @ [[]]"
  using assms
  by (simp add: on_incoming_packet_def recombine_def size_of_def Let_def
      kMaxQueuedPacketsPerConnection_def)

text \<open>
  C4 says that a CONTINUING fragment that arrives while no reassembly is in progress, the
  one with an empty payload included, enqueues nothing and leaves the reassembly state
  empty. The code drops such a fragment, with a warning, only when its payload is not
  empty. On the idle connection with an empty inbound queue the CONTINUING fragment
  with an empty payload enqueues a PDU of no bytes, while the fragment with the payload
  \<open>[0xEE]\<close> leaves the connection as it was.
\<close>

theorem stray_empty_continuing_is_enqueued:
  "recombination_stage idle_connection = []
   \<and> remaining_sdu_continuation_packet_size idle_connection = 0
   \<and> incoming_queue idle_connection = []
   \<and> incoming_queue (on_incoming_packet idle_connection (fragment CONTINUING_FRAGMENT [])) = [[]]
   \<and> on_incoming_packet idle_connection (fragment CONTINUING_FRAGMENT [0xEE]) = idle_connection"
  by (simp add: reassembler_defs)

text \<open>
  From any state, a FIRST fragment of fewer than 4 bytes is staged, and \<open>4\<close> minus its
  size is the count of bytes awaited.
\<close>

lemma short_first_fragment_staged:
  assumes "GetPacketBoundaryFlag p = FIRST_AUTOMATICALLY_FLUSHABLE"
    and "length (GetPayload p) < 4"
  shows "on_incoming_packet c p =
           c\<lparr>remaining_sdu_continuation_packet_size := of_nat (4 - length (GetPayload p)),
             recombination_stage := GetPayload p\<rparr>"
proof -
  from assms(2) consider "length (GetPayload p) = 0" | "length (GetPayload p) = 1"
    | "length (GetPayload p) = 2" | "length (GetPayload p) = 3"
    by linarith
  then show ?thesis
    using assms(1)
    by cases
      (simp_all add: on_incoming_packet_def recombine_def GetL2capPduSize_def size_of_def
        kL2capBasicFrameHeaderSize_def Let_def word_sless_alt)
qed

text \<open>
  C5 says that a FIRST fragment with fewer than 4 bytes is dropped and leaves the
  reassembly state as it was. In the code \<^verbatim>\<open>GetL2capPduSize\<close> returns 0 for it, and
  the caller computes \<open>0 - (payload_size - 4)\<close> in \<^verbatim>\<open>size_t\<close>, which is
  \<open>4 - payload_size\<close> and positive.
  For the payload of 3 bytes below, the bytes are staged and 1 byte is awaited; a
  CONTINUING fragment of 1 byte then completes a PDU of 4 bytes.
\<close>

theorem short_first_fragment_is_staged:
  "recombination_stage
       (on_incoming_packet idle_connection (fragment FIRST_AUTOMATICALLY_FLUSHABLE [1, 2, 3]))
     = [1, 2, 3]
   \<and> remaining_sdu_continuation_packet_size
       (on_incoming_packet idle_connection (fragment FIRST_AUTOMATICALLY_FLUSHABLE [1, 2, 3]))
     = 1
   \<and> incoming_queue (on_incoming_packets idle_connection
       [fragment FIRST_AUTOMATICALLY_FLUSHABLE [1, 2, 3], fragment CONTINUING_FRAGMENT [9]])
     = [[1, 2, 3, 9]]"
  by (simp add: reassembler_defs)

subsection \<open>Input from the controller (C2, C6)\<close>

text \<open>
  C2, as stated, fails: a successful connection-complete for a handle that is in the
  table, a successful disconnection-complete for a handle that is not, and an invalid
  LE-connection-complete view each end in a failed \<^verbatim>\<open>ASSERT\<close>.
\<close>

theorem controller_input_assertion_counterexample:
  "on_connection_complete connected
     \<lparr>ConnectionCompleteView.IsValid = True, GetStatus = SUCCESS, GetConnectionHandle = 0x40,
      GetBdAddr = peer_B\<rparr> = Inl ASSERT_failed
   \<and> on_disconnection_complete started
     \<lparr>DisconnectionCompleteView.IsValid = True, GetStatus = SUCCESS, GetConnectionHandle = 0x40,
      GetReason = 0x13\<rparr> = Inl ASSERT_failed
   \<and> on_le_connection_complete started
     \<lparr>LeConnectionCompleteView.IsValid = False, GetStatus = SUCCESS, GetConnectionHandle = 0x41,
      GetPeerAddress = peer_B, GetPeerAddressType = PUBLIC_DEVICE_ADDRESS, GetRole = MASTER\<rparr>
       = Inl ASSERT_failed"
  by (simp add: on_connection_complete_def on_disconnection_complete_def
      on_le_connection_complete_def on_classic_connection_complete_def state_defs effect_defs)

text \<open>
  C2, amended. The ingress router handles every dequeued ACL packet without a failure:
  an invalid packet, a packet for the debug handle 0xEDC and a packet for a handle that
  is not in the table leave the state as it was, and any other packet goes to the
  reassembler of its connection and changes that connection only. Of the event handlers,
  \<^item> connection-complete (Classic and LE) fails an assertion on an invalid view, and on a
    valid view with status SUCCESS whose handle is already in the table; with the client
    handler registered it returns otherwise: with an error status the table is unchanged,
    with status SUCCESS and a new handle the table holds a fresh connection for it;
  \<^item> disconnection-complete fails an assertion on an invalid view, and on a valid view
    with status SUCCESS whose handle is not in the table; with an error status it returns
    and changes nothing; with status SUCCESS for a connection that has a disconnect
    handler it returns and the connection is marked disconnected;
  \<^item> connection-packet-type-changed, authentication-complete and mode-change return and
    change nothing on an invalid view or an error status, and return for a handle that is
    in the table;
  \<^item> LE connection-update-complete returns and changes nothing on an invalid view, on an
    error status and for a handle that is not in the table.
\<close>

theorem controller_input_processing:
  "dequeue_and_route_acl_packet_to_connection s (Some packet) =
     Inr (if \<not> AclPacketView.IsValid packet \<or> GetHandle packet = kQualcommDebugHandle then s
          else case find_connection s (GetHandle packet) of
                 None \<Rightarrow> s
               | Some connection \<Rightarrow>
                   set_connection s (GetHandle packet) (on_incoming_packet connection packet))
   \<and> (\<not> ConnectionCompleteView.IsValid cc \<longrightarrow> on_connection_complete s cc = Inl ASSERT_failed)
   \<and> (ConnectionCompleteView.IsValid cc \<and> ConnectionCompleteView.GetStatus cc = SUCCESS
        \<and> find_connection s (ConnectionCompleteView.GetConnectionHandle cc) \<noteq> None
       \<longrightarrow> on_connection_complete s cc = Inl ASSERT_failed)
   \<and> (ConnectionCompleteView.IsValid cc \<and> ConnectionCompleteView.GetStatus cc \<noteq> SUCCESS
        \<and> client_handler s \<noteq> None
       \<longrightarrow> (\<exists>s'. on_connection_complete s cc = Inr s' \<and> acl_connections s' = acl_connections s))
   \<and> (ConnectionCompleteView.IsValid cc \<and> ConnectionCompleteView.GetStatus cc = SUCCESS
        \<and> find_connection s (ConnectionCompleteView.GetConnectionHandle cc) = None
        \<and> client_handler s \<noteq> None
       \<longrightarrow> (\<exists>s'. on_connection_complete s cc = Inr s'
                \<and> find_connection s' (ConnectionCompleteView.GetConnectionHandle cc) =
                    Some (new_acl_connection
                            \<lparr>GetAddress = GetBdAddr cc, GetAddressType = PUBLIC_DEVICE_ADDRESS\<rparr>)))
   \<and> (\<not> LeConnectionCompleteView.IsValid lc \<longrightarrow> on_le_connection_complete s lc = Inl ASSERT_failed)
   \<and> (LeConnectionCompleteView.IsValid lc \<and> LeConnectionCompleteView.GetStatus lc = SUCCESS
        \<and> find_connection s (LeConnectionCompleteView.GetConnectionHandle lc) \<noteq> None
       \<longrightarrow> on_le_connection_complete s lc = Inl ASSERT_failed)
   \<and> (LeConnectionCompleteView.IsValid lc \<and> LeConnectionCompleteView.GetStatus lc \<noteq> SUCCESS
        \<and> le_client_handler s \<noteq> None
       \<longrightarrow> (\<exists>s'. on_le_connection_complete s lc = Inr s' \<and> acl_connections s' = acl_connections s))
   \<and> (LeConnectionCompleteView.IsValid lc \<and> LeConnectionCompleteView.GetStatus lc = SUCCESS
        \<and> find_connection s (LeConnectionCompleteView.GetConnectionHandle lc) = None
        \<and> le_client_handler s \<noteq> None
       \<longrightarrow> (\<exists>s'. on_le_connection_complete s lc = Inr s'
                \<and> find_connection s' (LeConnectionCompleteView.GetConnectionHandle lc) =
                    Some (new_acl_connection
                            \<lparr>GetAddress = GetPeerAddress lc,
                             GetAddressType = GetPeerAddressType lc\<rparr>)))
   \<and> (\<not> DisconnectionCompleteView.IsValid dc \<longrightarrow> on_disconnection_complete s dc = Inl ASSERT_failed)
   \<and> (DisconnectionCompleteView.IsValid dc \<and> DisconnectionCompleteView.GetStatus dc = SUCCESS
        \<and> find_connection s (DisconnectionCompleteView.GetConnectionHandle dc) = None
       \<longrightarrow> on_disconnection_complete s dc = Inl ASSERT_failed)
   \<and> (DisconnectionCompleteView.IsValid dc \<and> DisconnectionCompleteView.GetStatus dc \<noteq> SUCCESS
       \<longrightarrow> on_disconnection_complete s dc = Inr s)
   \<and> (DisconnectionCompleteView.IsValid dc \<and> DisconnectionCompleteView.GetStatus dc = SUCCESS
        \<and> (\<exists>c. find_connection s (DisconnectionCompleteView.GetConnectionHandle dc) = Some c
                 \<and> disconnect_handler c \<noteq> None)
       \<longrightarrow> (\<exists>s' c'. on_disconnection_complete s dc = Inr s'
                \<and> find_connection s' (DisconnectionCompleteView.GetConnectionHandle dc) = Some c'
                \<and> is_disconnected c'))
   \<and> (\<not> ConnectionPacketTypeChangedView.IsValid pt
        \<or> ConnectionPacketTypeChangedView.GetStatus pt \<noteq> SUCCESS
       \<longrightarrow> on_connection_packet_type_changed s pt = Inr s)
   \<and> (find_connection s (ConnectionPacketTypeChangedView.GetConnectionHandle pt) \<noteq> None
       \<longrightarrow> (\<exists>s'. on_connection_packet_type_changed s pt = Inr s'))
   \<and> (\<not> AuthenticationCompleteView.IsValid ac
        \<or> AuthenticationCompleteView.GetStatus ac \<noteq> SUCCESS
       \<longrightarrow> on_authentication_complete s ac = Inr s)
   \<and> (find_connection s (AuthenticationCompleteView.GetConnectionHandle ac) \<noteq> None
       \<longrightarrow> (\<exists>s'. on_authentication_complete s ac = Inr s'))
   \<and> (\<not> ModeChangeView.IsValid mc \<or> ModeChangeView.GetStatus mc \<noteq> SUCCESS
       \<longrightarrow> on_mode_change s mc = Inr s)
   \<and> (find_connection s (ModeChangeView.GetConnectionHandle mc) \<noteq> None
       \<longrightarrow> (\<exists>s'. on_mode_change s mc = Inr s'))
   \<and> (\<not> LeConnectionUpdateCompleteView.IsValid uc
        \<or> LeConnectionUpdateCompleteView.GetStatus uc \<noteq> SUCCESS
        \<or> find_connection s (LeConnectionUpdateCompleteView.GetConnectionHandle uc) = None
       \<longrightarrow> on_le_connection_update_complete s uc = Inr s)"
proof (intro conjI impI)
  show "dequeue_and_route_acl_packet_to_connection s (Some packet) =
     Inr (if \<not> AclPacketView.IsValid packet \<or> GetHandle packet = kQualcommDebugHandle then s
          else case find_connection s (GetHandle packet) of
                 None \<Rightarrow> s
               | Some connection \<Rightarrow>
                   set_connection s (GetHandle packet) (on_incoming_packet connection packet))"
    by (rule router_behaviour)
next
  assume "DisconnectionCompleteView.IsValid dc \<and> DisconnectionCompleteView.GetStatus dc = SUCCESS
        \<and> (\<exists>c. find_connection s (DisconnectionCompleteView.GetConnectionHandle dc) = Some c
                 \<and> disconnect_handler c \<noteq> None)"
  then show "\<exists>s' c'. on_disconnection_complete s dc = Inr s'
                \<and> find_connection s' (DisconnectionCompleteView.GetConnectionHandle dc) = Some c'
                \<and> is_disconnected c'"
    using on_disconnection_complete_success [of dc s] by blast
qed (auto intro: on_connection_complete_fails on_connection_complete_error_status
      on_connection_complete_success on_le_connection_complete_fails
      on_le_connection_complete_error_status on_le_connection_complete_success
      on_disconnection_complete_fails on_disconnection_complete_error_status
      handle_event_returns
      on_le_connection_update_complete_returns)

text \<open>
  The theorem on the manager without a connection, with the connection 0x40, and with the
  connection 0x40 that has a disconnect handler; the handle 0x42 is in no table.
\<close>

theorem controller_input_processing_witness:
  "dequeue_and_route_acl_packet_to_connection connected
       (Some (fragment FIRST_AUTOMATICALLY_FLUSHABLE [4, 0, 1, 0, 0xAA, 0xBB, 0xCC, 0xDD]))
     = Inr (set_connection connected 0x40
              (on_incoming_packet idle_connection
                 (fragment FIRST_AUTOMATICALLY_FLUSHABLE [4, 0, 1, 0, 0xAA, 0xBB, 0xCC, 0xDD])))
   \<and> dequeue_and_route_acl_packet_to_connection connected (Some invalid_packet) = Inr connected
   \<and> dequeue_and_route_acl_packet_to_connection connected (Some debug_packet) = Inr connected
   \<and> dequeue_and_route_acl_packet_to_connection started
       (Some (fragment FIRST_AUTOMATICALLY_FLUSHABLE [4, 0, 1, 0, 0xAA, 0xBB, 0xCC, 0xDD]))
     = Inr started
   \<and> on_connection_complete connected (connection_complete_event False SUCCESS 0x42) = Inl ASSERT_failed
   \<and> on_connection_complete connected (connection_complete_event True SUCCESS 0x40) = Inl ASSERT_failed
   \<and> (\<exists>s'. on_connection_complete connected (connection_complete_event True 0x04 0x42) = Inr s'
            \<and> acl_connections s' = acl_connections connected)
   \<and> (\<exists>s'. on_connection_complete connected (connection_complete_event True SUCCESS 0x42) = Inr s'
            \<and> find_connection s' 0x42 =
                Some (new_acl_connection
                        \<lparr>GetAddress = peer_B, GetAddressType = PUBLIC_DEVICE_ADDRESS\<rparr>))
   \<and> on_le_connection_complete connected (le_connection_complete_event False SUCCESS 0x42)
     = Inl ASSERT_failed
   \<and> on_le_connection_complete connected (le_connection_complete_event True SUCCESS 0x40)
     = Inl ASSERT_failed
   \<and> (\<exists>s'. on_le_connection_complete connected (le_connection_complete_event True 0x3E 0x42) = Inr s'
            \<and> acl_connections s' = acl_connections connected)
   \<and> (\<exists>s'. on_le_connection_complete connected (le_connection_complete_event True SUCCESS 0x42) = Inr s'
            \<and> find_connection s' 0x42 =
                Some (new_acl_connection
                        \<lparr>GetAddress = peer_B, GetAddressType = PUBLIC_DEVICE_ADDRESS\<rparr>))
   \<and> on_disconnection_complete awaiting_disconnection (disconnection_complete_event False SUCCESS 0x40)
     = Inl ASSERT_failed
   \<and> on_disconnection_complete awaiting_disconnection (disconnection_complete_event True SUCCESS 0x42)
     = Inl ASSERT_failed
   \<and> on_disconnection_complete awaiting_disconnection (disconnection_complete_event True 0x05 0x40)
     = Inr awaiting_disconnection
   \<and> (\<exists>s' c'. on_disconnection_complete awaiting_disconnection
                  (disconnection_complete_event True SUCCESS 0x40) = Inr s'
            \<and> find_connection s' 0x40 = Some c' \<and> is_disconnected c')
   \<and> on_connection_packet_type_changed connected (packet_type_changed_event False SUCCESS 0x42)
     = Inr connected
   \<and> (\<exists>s'. on_connection_packet_type_changed connected (packet_type_changed_event True SUCCESS 0x40)
            = Inr s')
   \<and> on_authentication_complete connected (authentication_complete_event True 0x05 0x42) = Inr connected
   \<and> (\<exists>s'. on_authentication_complete connected (authentication_complete_event True SUCCESS 0x40)
            = Inr s')
   \<and> on_mode_change connected (mode_change_event False SUCCESS 0x42) = Inr connected
   \<and> (\<exists>s'. on_mode_change connected (mode_change_event True SUCCESS 0x40) = Inr s')
   \<and> on_le_connection_update_complete connected (le_connection_update_complete_event True SUCCESS 0x42)
     = Inr connected"
proof -
  let ?whole = "fragment FIRST_AUTOMATICALLY_FLUSHABLE [4, 0, 1, 0, 0xAA, 0xBB, 0xCC, 0xDD]"
  have tables [simp]:
    "find_connection connected 0x40 = Some idle_connection"
    "find_connection connected 0x42 = None"
    "find_connection started 0x40 = None"
    "find_connection awaiting_disconnection 0x40 =
        Some (idle_connection\<lparr>disconnect_handler := Some 5, on_disconnect_callback := Some 6\<rparr>)"
    "find_connection awaiting_disconnection 0x42 = None"
    by (simp_all add: awaiting_disconnection_def state_defs effect_defs)
  have handlers [simp]:
    "client_handler connected = Some 2" "le_client_handler connected = Some 4"
    by (simp_all add: state_defs)
  have packets [simp]:
    "AclPacketView.IsValid ?whole" "GetHandle ?whole = 0x40"
    "\<not> AclPacketView.IsValid invalid_packet" "GetHandle debug_packet = kQualcommDebugHandle"
    "(0x40 :: uint16_t) \<noteq> kQualcommDebugHandle"
    by (simp_all add: fragment_def event_defs kQualcommDebugHandle_def)
  note a = controller_input_processing [of connected ?whole
      "connection_complete_event False SUCCESS 0x42" "le_connection_complete_event False SUCCESS 0x42"
      "disconnection_complete_event False SUCCESS 0x40" "packet_type_changed_event False SUCCESS 0x42"
      "authentication_complete_event True 0x05 0x42" "mode_change_event False SUCCESS 0x42"
      "le_connection_update_complete_event True SUCCESS 0x42"]
  note b = controller_input_processing [of connected invalid_packet
      "connection_complete_event True SUCCESS 0x40" "le_connection_complete_event True SUCCESS 0x40"
      "disconnection_complete_event True SUCCESS 0x42" "packet_type_changed_event True SUCCESS 0x40"
      "authentication_complete_event True SUCCESS 0x40" "mode_change_event True SUCCESS 0x40"
      "le_connection_update_complete_event True SUCCESS 0x42"]
  note c = controller_input_processing [of connected debug_packet
      "connection_complete_event True 0x04 0x42" "le_connection_complete_event True 0x3E 0x42"
      "disconnection_complete_event True 0x05 0x40" "packet_type_changed_event True SUCCESS 0x40"
      "authentication_complete_event True SUCCESS 0x40" "mode_change_event True SUCCESS 0x40"
      "le_connection_update_complete_event True SUCCESS 0x42"]
  note d = controller_input_processing [of connected debug_packet
      "connection_complete_event True SUCCESS 0x42" "le_connection_complete_event True SUCCESS 0x42"
      "disconnection_complete_event True 0x05 0x40" "packet_type_changed_event True SUCCESS 0x40"
      "authentication_complete_event True SUCCESS 0x40" "mode_change_event True SUCCESS 0x40"
      "le_connection_update_complete_event True SUCCESS 0x42"]
  note e = controller_input_processing [of awaiting_disconnection debug_packet
      "connection_complete_event True SUCCESS 0x42" "le_connection_complete_event True SUCCESS 0x42"
      "disconnection_complete_event False SUCCESS 0x40" "packet_type_changed_event True SUCCESS 0x40"
      "authentication_complete_event True SUCCESS 0x40" "mode_change_event True SUCCESS 0x40"
      "le_connection_update_complete_event True SUCCESS 0x42"]
  note f = controller_input_processing [of awaiting_disconnection debug_packet
      "connection_complete_event True SUCCESS 0x42" "le_connection_complete_event True SUCCESS 0x42"
      "disconnection_complete_event True SUCCESS 0x42" "packet_type_changed_event True SUCCESS 0x40"
      "authentication_complete_event True SUCCESS 0x40" "mode_change_event True SUCCESS 0x40"
      "le_connection_update_complete_event True SUCCESS 0x42"]
  note g = controller_input_processing [of awaiting_disconnection debug_packet
      "connection_complete_event True SUCCESS 0x42" "le_connection_complete_event True SUCCESS 0x42"
      "disconnection_complete_event True 0x05 0x40" "packet_type_changed_event True SUCCESS 0x40"
      "authentication_complete_event True SUCCESS 0x40" "mode_change_event True SUCCESS 0x40"
      "le_connection_update_complete_event True SUCCESS 0x42"]
  note h = controller_input_processing [of awaiting_disconnection debug_packet
      "connection_complete_event True SUCCESS 0x42" "le_connection_complete_event True SUCCESS 0x42"
      "disconnection_complete_event True SUCCESS 0x40" "packet_type_changed_event True SUCCESS 0x40"
      "authentication_complete_event True SUCCESS 0x40" "mode_change_event True SUCCESS 0x40"
      "le_connection_update_complete_event True SUCCESS 0x42"]
  note i = controller_input_processing [of started ?whole
      "connection_complete_event True SUCCESS 0x42" "le_connection_complete_event True SUCCESS 0x42"
      "disconnection_complete_event True SUCCESS 0x40" "packet_type_changed_event False SUCCESS 0x40"
      "authentication_complete_event True 0x05 0x40" "mode_change_event False SUCCESS 0x40"
      "le_connection_update_complete_event True SUCCESS 0x42"]
  have views [simp]:
    "\<And>v st h. ConnectionCompleteView.IsValid (connection_complete_event v st h) = v"
    "\<And>v st h. ConnectionCompleteView.GetStatus (connection_complete_event v st h) = st"
    "\<And>v st h. ConnectionCompleteView.GetConnectionHandle (connection_complete_event v st h) = h"
    "\<And>v st h. GetBdAddr (connection_complete_event v st h) = peer_B"
    "\<And>v st h. LeConnectionCompleteView.IsValid (le_connection_complete_event v st h) = v"
    "\<And>v st h. LeConnectionCompleteView.GetStatus (le_connection_complete_event v st h) = st"
    "\<And>v st h. LeConnectionCompleteView.GetConnectionHandle (le_connection_complete_event v st h) = h"
    "\<And>v st h. GetPeerAddress (le_connection_complete_event v st h) = peer_B"
    "\<And>v st h. GetPeerAddressType (le_connection_complete_event v st h) = PUBLIC_DEVICE_ADDRESS"
    "\<And>v st h. DisconnectionCompleteView.IsValid (disconnection_complete_event v st h) = v"
    "\<And>v st h. DisconnectionCompleteView.GetStatus (disconnection_complete_event v st h) = st"
    "\<And>v st h. DisconnectionCompleteView.GetConnectionHandle (disconnection_complete_event v st h) = h"
    "\<And>v st h. ConnectionPacketTypeChangedView.IsValid (packet_type_changed_event v st h) = v"
    "\<And>v st h. ConnectionPacketTypeChangedView.GetStatus (packet_type_changed_event v st h) = st"
    "\<And>v st h. ConnectionPacketTypeChangedView.GetConnectionHandle (packet_type_changed_event v st h) = h"
    "\<And>v st h. AuthenticationCompleteView.IsValid (authentication_complete_event v st h) = v"
    "\<And>v st h. AuthenticationCompleteView.GetStatus (authentication_complete_event v st h) = st"
    "\<And>v st h. AuthenticationCompleteView.GetConnectionHandle (authentication_complete_event v st h) = h"
    "\<And>v st h. ModeChangeView.IsValid (mode_change_event v st h) = v"
    "\<And>v st h. ModeChangeView.GetStatus (mode_change_event v st h) = st"
    "\<And>v st h. ModeChangeView.GetConnectionHandle (mode_change_event v st h) = h"
    "\<And>v st h. LeConnectionUpdateCompleteView.IsValid (le_connection_update_complete_event v st h) = v"
    "\<And>v st h. LeConnectionUpdateCompleteView.GetStatus (le_connection_update_complete_event v st h) = st"
    "\<And>v st h. LeConnectionUpdateCompleteView.GetConnectionHandle
                  (le_connection_update_complete_event v st h) = h"
    by (simp_all add: event_defs)
  have codes [simp]: "(0x04 :: ErrorCode) \<noteq> SUCCESS" "(0x3E :: ErrorCode) \<noteq> SUCCESS"
    "(0x05 :: ErrorCode) \<noteq> SUCCESS"
    by (simp_all add: SUCCESS_def)
  show ?thesis
    using a b c d e f g h i by simp
qed

text \<open>
  In any state, a valid event with status SUCCESS for a handle that is not in the table
  makes the three handlers read through \<^verbatim>\<open>end()\<close>.
\<close>

lemma event_for_unknown_handle:
  assumes "find_connection s handle = None"
  shows "on_connection_packet_type_changed s
           \<lparr>ConnectionPacketTypeChangedView.IsValid = True, GetStatus = SUCCESS,
            GetConnectionHandle = handle, GetPacketType = packet_type\<rparr>
         = Inl end_iterator_dereferenced"
    and "on_authentication_complete s
           \<lparr>AuthenticationCompleteView.IsValid = True, GetStatus = SUCCESS,
            GetConnectionHandle = handle\<rparr>
         = Inl end_iterator_dereferenced"
    and "on_mode_change s
           \<lparr>ModeChangeView.IsValid = True, GetStatus = SUCCESS, GetConnectionHandle = handle,
            GetCurrentMode = current_mode, GetInterval = interval\<rparr>
         = Inl end_iterator_dereferenced"
  using assms
  by (simp_all add: on_connection_packet_type_changed_def on_authentication_complete_def
      on_mode_change_def)

text \<open>
  C6 says that an event which carries a handle that is not in the table is dropped with
  a warning. The handlers of CONNECTION\_PACKET\_TYPE\_CHANGED, AUTHENTICATION\_COMPLETE and
  MODE\_CHANGE read \<^verbatim>\<open>find(handle)->second\<close> without a test, so on the empty table they
  dereference \<^verbatim>\<open>end()\<close>; the handler of the LE connection-update-complete event tests
  the result of \<^verbatim>\<open>find\<close> and returns.
\<close>

theorem unknown_handle_event_dereferences_end:
  "on_connection_packet_type_changed started
     \<lparr>ConnectionPacketTypeChangedView.IsValid = True, GetStatus = SUCCESS,
      GetConnectionHandle = 0x40, GetPacketType = 0xCC18\<rparr> = Inl end_iterator_dereferenced
   \<and> on_authentication_complete started
     \<lparr>AuthenticationCompleteView.IsValid = True, GetStatus = SUCCESS,
      GetConnectionHandle = 0x40\<rparr> = Inl end_iterator_dereferenced
   \<and> on_mode_change started
     \<lparr>ModeChangeView.IsValid = True, GetStatus = SUCCESS, GetConnectionHandle = 0x40,
      GetCurrentMode = 0, GetInterval = 0\<rparr> = Inl end_iterator_dereferenced
   \<and> on_le_connection_update_complete started
     \<lparr>LeConnectionUpdateCompleteView.IsValid = True, GetStatus = SUCCESS,
      GetConnectionHandle = 0x40\<rparr> = Inr started"
  by (simp add: on_connection_packet_type_changed_def on_authentication_complete_def
      on_mode_change_def on_le_connection_update_complete_def state_defs effect_defs)

subsection \<open>Operations on a disconnected connection (C7)\<close>

text \<open>
  C7. When the connection of a handle has \<open>is_disconnected\<close> set, every call of a boolean
  operation of its proxy returns false and leaves the whole state as it was: nothing is
  posted to the handler of the manager and no HCI command is enqueued. This holds for
  any sequence of such calls.
\<close>

theorem operations_after_disconnection:
  assumes "find_connection s handle = Some connection" and "is_disconnected connection"
  shows "calls s handle operations = Inr (replicate (length operations) False, s)"
  by (induction operations) (simp_all add: call_on_disconnected [OF assms])

text \<open>The theorem at four calls on the disconnected connection 0x40.\<close>

theorem operations_after_disconnection_witness:
  "calls disconnected 0x40
     [Call_Disconnect 0x13, Call_ReadRssi, Call_AuthenticationRequested,
      Call_LeConnectionUpdate 0x18 0x28 0 0x1F4 2 0xC00 (Some 7) (Some 8)]
   = Inr ([False, False, False, False], disconnected)
   \<and> hci_commands disconnected = [] \<and> handler_tasks disconnected = []"
proof -
  have h1: "find_connection disconnected 0x40 = Some (idle_connection\<lparr>is_disconnected := True\<rparr>)"
    by (simp add: find_connection_def disconnected_def started_def)
  have h2: "is_disconnected (idle_connection\<lparr>is_disconnected := True\<rparr>)" by simp
  from operations_after_disconnection [OF h1 h2, of
      "[Call_Disconnect 0x13, Call_ReadRssi, Call_AuthenticationRequested,
        Call_LeConnectionUpdate 0x18 0x28 0 0x1F4 2 0xC00 (Some 7) (Some 8)]"]
  show ?thesis by (simp add: disconnected_def started_def)
qed

subsection \<open>LE connection update (C8)\<close>

text \<open>
  Part of C8 holds in general: while an update is pending, a further call returns false
  and changes nothing.
\<close>

lemma LeConnectionUpdate_while_pending:
  assumes "find_connection s handle = Some connection"
    and "\<not> is_disconnected connection"
    and "on_connection_update_complete_callback connection \<noteq> None"
  shows "LeConnectionUpdate s handle conn_interval_min conn_interval_max conn_latency
           supervision_timeout min_ce_length max_ce_length done_callback handler
         = Inr (False, s)"
  using assms by (simp add: LeConnectionUpdate_def check_and_get_connection_def)

text \<open>
  C8 says that a call with a parameter out of range returns false and leaves the slot of
  the pending update empty. The code stores the callback before it tests the parameters.
  On the live LE connection 0x41 a call with \<open>conn_interval_min = 5\<close> returns false and
  leaves callback 7 in the slot, and the call with valid parameters that follows is
  refused as a second pending update.
\<close>

theorem rejected_update_stays_pending:
  "LeConnectionUpdate le_connected 0x41 0x0005 0x0028 0 0x01F4 0x0002 0x0C00 (Some 7) (Some 8)
     = Inr (False, update_rejected)
   \<and> map_option on_connection_update_complete_callback (find_connection update_rejected 0x41)
     = Some (Some 7)
   \<and> LeConnectionUpdate update_rejected 0x41 0x0018 0x0028 0 0x01F4 0x0002 0x0C00 (Some 9) (Some 8)
     = Inr (False, update_rejected)"
  by (simp add: LeConnectionUpdate_def update_rejected_def state_defs effect_defs)

subsection \<open>Outgoing Classic connections (C9)\<close>

text \<open>
  Part of C9 holds in general: while \<open>connecting\<close> is not empty, a request is appended to
  the queue of pending connections and no command is issued.
\<close>

lemma create_connection_while_connecting:
  assumes "connecting s \<noteq> {}" and "client_callbacks s \<noteq> None"
  shows "create_connection s address =
           Inr (s\<lparr>pending_outgoing_connections := pending_outgoing_connections s @
                     [(address, CreateConnectionBuilder address 0xCC18 R1 0 INVALID
                                  ALLOW_ROLE_SWITCH)]\<rparr>)"
  using assms by (simp add: create_connection_def Let_def)

text \<open>
  In any state, a CONNECTION\_COMPLETE with an error status neither issues a command nor
  takes an entry from the queue of pending connections.
\<close>

lemma failed_connection_complete_issues_nothing:
  assumes "on_connection_complete s connection_complete = Inr s'"
    and "ConnectionCompleteView.GetStatus connection_complete \<noteq> SUCCESS"
  shows "hci_commands s' = hci_commands s
       \<and> pending_outgoing_connections s' = pending_outgoing_connections s"
  using assms
  by (auto simp: on_connection_complete_def on_classic_connection_complete_def Post_to_def Let_def
      split: if_splits option.splits)

text \<open>
  C9 says that the next pending request is issued when the CONNECTION\_COMPLETE of the
  connection in flight arrives, with any status. The code returns before the loop over the pending queue
  when the status is an error. With a connection to \<open>peer_A\<close> in flight, the request for
  \<open>peer_B\<close> is queued; the CONNECTION\_COMPLETE for \<open>peer_A\<close> with status 0x04 empties
  \<open>connecting\<close> and issues nothing, and the request for \<open>peer_B\<close> stays queued; a later
  request for \<open>peer_C\<close> is issued at once, ahead of it. With status SUCCESS the same event
  issues the command for \<open>peer_B\<close>.
\<close>

theorem failed_connection_complete_strands_pending:
  "create_connection connecting_A peer_B = Inr queued_B
   \<and> hci_commands queued_B = [CreateConnectionBuilder peer_A 0xCC18 R1 0 INVALID ALLOW_ROLE_SWITCH]
   \<and> on_connection_complete queued_B
        \<lparr>ConnectionCompleteView.IsValid = True, GetStatus = 0x04, GetConnectionHandle = 0,
         GetBdAddr = peer_A\<rparr> = Inr failed_A
   \<and> connecting failed_A = {}
   \<and> hci_commands failed_A = [CreateConnectionBuilder peer_A 0xCC18 R1 0 INVALID ALLOW_ROLE_SWITCH]
   \<and> pending_outgoing_connections failed_A
        = [(peer_B, CreateConnectionBuilder peer_B 0xCC18 R1 0 INVALID ALLOW_ROLE_SWITCH)]
   \<and> map_sum id hci_commands (create_connection failed_A peer_C)
        = Inr [CreateConnectionBuilder peer_A 0xCC18 R1 0 INVALID ALLOW_ROLE_SWITCH,
               CreateConnectionBuilder peer_C 0xCC18 R1 0 INVALID ALLOW_ROLE_SWITCH]
   \<and> map_sum id pending_outgoing_connections (create_connection failed_A peer_C)
        = Inr [(peer_B, CreateConnectionBuilder peer_B 0xCC18 R1 0 INVALID ALLOW_ROLE_SWITCH)]
   \<and> map_sum id hci_commands (on_connection_complete queued_B
        \<lparr>ConnectionCompleteView.IsValid = True, GetStatus = SUCCESS, GetConnectionHandle = 0x40,
         GetBdAddr = peer_A\<rparr>)
        = Inr [CreateConnectionBuilder peer_A 0xCC18 R1 0 INVALID ALLOW_ROLE_SWITCH,
               CreateConnectionBuilder peer_B 0xCC18 R1 0 INVALID ALLOW_ROLE_SWITCH]"
  by (simp add: create_connection_def on_connection_complete_def on_classic_connection_complete_def
      queued_B_def failed_A_def state_defs effect_defs)

subsection \<open>Repeated Disconnect (C10)\<close>

text \<open>
  C10, as stated, fails: before the DISCONNECTION\_COMPLETE event, a second \<^verbatim>\<open>Disconnect\<close>
  on the live handle 0x40 returns true as the first did, two closures are posted, and
  running \<^verbatim>\<open>handle_disconnect\<close> twice enqueues two Disconnect commands.
\<close>

theorem repeated_disconnect_counterexample:
  "Disconnect connected 0x40 0x13 = Inr (True, Post connected (Post_handle_disconnect 0x40 0x13))
   \<and> Disconnect (Post connected (Post_handle_disconnect 0x40 0x13)) 0x40 0x13
       = Inr (True, Post (Post connected (Post_handle_disconnect 0x40 0x13))
                      (Post_handle_disconnect 0x40 0x13))
   \<and> handler_tasks (Post (Post connected (Post_handle_disconnect 0x40 0x13))
                      (Post_handle_disconnect 0x40 0x13))
       = [Post_handle_disconnect 0x40 0x13, Post_handle_disconnect 0x40 0x13]
   \<and> map_sum id hci_commands
        (case handle_disconnect connected 0x40 0x13 of
           Inl f \<Rightarrow> Inl f
         | Inr s \<Rightarrow> handle_disconnect s 0x40 0x13)
       = Inr [DisconnectBuilder 0x40 0x13, DisconnectBuilder 0x40 0x13]"
  by (simp add: Disconnect_def handle_disconnect_def state_defs effect_defs)

text \<open>
  C10, amended. After a DISCONNECTION\_COMPLETE event with status SUCCESS has been handled
  for a handle, \<^verbatim>\<open>Disconnect\<close> on that handle returns false and changes nothing. On a
  handle whose connection is not marked disconnected, \<^verbatim>\<open>Disconnect\<close> returns true and
  posts \<^verbatim>\<open>handle_disconnect\<close>, and so does the call that follows it.
\<close>

theorem disconnect_after_disconnection_complete:
  "(on_disconnection_complete s dc = Inr s' \<and> DisconnectionCompleteView.GetStatus dc = SUCCESS
      \<longrightarrow> Disconnect s' (DisconnectionCompleteView.GetConnectionHandle dc) reason = Inr (False, s'))
   \<and> (find_connection t handle = Some connection \<and> \<not> is_disconnected connection
      \<longrightarrow> Disconnect t handle reason = Inr (True, Post t (Post_handle_disconnect handle reason))
        \<and> Disconnect (Post t (Post_handle_disconnect handle reason)) handle reason
            = Inr (True, Post (Post t (Post_handle_disconnect handle reason))
                           (Post_handle_disconnect handle reason)))"
proof (intro conjI impI)
  assume "on_disconnection_complete s dc = Inr s' \<and> DisconnectionCompleteView.GetStatus dc = SUCCESS"
  then obtain c where "find_connection s' (DisconnectionCompleteView.GetConnectionHandle dc) = Some c"
    and "is_disconnected c"
    using on_disconnection_complete_sets_flag by blast
  then show "Disconnect s' (DisconnectionCompleteView.GetConnectionHandle dc) reason = Inr (False, s')"
    by (simp add: Disconnect_def check_and_get_connection_def)
next
  assume a: "find_connection t handle = Some connection \<and> \<not> is_disconnected connection"
  then show "Disconnect t handle reason = Inr (True, Post t (Post_handle_disconnect handle reason))"
    by (simp add: Disconnect_def check_and_get_connection_def)
  from a show "Disconnect (Post t (Post_handle_disconnect handle reason)) handle reason
            = Inr (True, Post (Post t (Post_handle_disconnect handle reason))
                           (Post_handle_disconnect handle reason))"
    by (simp add: Disconnect_def check_and_get_connection_def)
qed

text \<open>The theorem at the event for handle 0x40 with reason 0x13, and at the live connection 0x40.\<close>

theorem disconnect_after_disconnection_complete_witness:
  "Disconnect disconnection_reported 0x40 0x13 = Inr (False, disconnection_reported)
   \<and> Disconnect connected 0x40 0x13 = Inr (True, Post connected (Post_handle_disconnect 0x40 0x13))
   \<and> Disconnect (Post connected (Post_handle_disconnect 0x40 0x13)) 0x40 0x13
       = Inr (True, Post (Post connected (Post_handle_disconnect 0x40 0x13))
                      (Post_handle_disconnect 0x40 0x13))"
proof -
  let ?dc = "\<lparr>DisconnectionCompleteView.IsValid = True, GetStatus = SUCCESS,
              GetConnectionHandle = 0x40, GetReason = 0x13\<rparr>"
  have h1: "on_disconnection_complete awaiting_disconnection ?dc = Inr disconnection_reported
            \<and> DisconnectionCompleteView.GetStatus ?dc = SUCCESS"
    by (simp add: on_disconnection_complete_def call_disconnect_callback_def
        awaiting_disconnection_def disconnection_reported_def state_defs effect_defs)
  have h2: "find_connection connected 0x40 = Some idle_connection \<and> \<not> is_disconnected idle_connection"
    by (simp add: state_defs effect_defs)
  from disconnect_after_disconnection_complete [of awaiting_disconnection ?dc disconnection_reported "0x13" connected "0x40"
      idle_connection]
    h1 h2
  show ?thesis by simp
qed

end
